theory Spec2Isabelle
  imports Complex_Main
begin

section \<open>Values of the host language\<close>

text \<open>
  The analysis core is the class \<open>SEOAnalyzer\<close>. Its strings are modelled as
  \<open>string\<close>, one \<open>char\<close> per UTF-16 code unit, for code units below 256. Its
  numbers are IEEE doubles: a finite double is the rational it denotes, and every
  arithmetic operation rounds its exact result to the nearest double, a tie going to the
  even significand. The exponent range of the doubles is not modelled (no overflow to
  infinity, no subnormal numbers): the numbers of an audit stay far from its ends.
\<close>

subsection \<open>Rounding to a double\<close>

definition pow2 :: "int \<Rightarrow> rat" where
  "pow2 k = (if 0 \<le> k then 2 ^ nat k else 1 / 2 ^ nat (- k))"

text \<open>The binary exponent of a positive rational \<open>x\<close>: the \<open>e\<close> with
  \<open>2^e \<le> x < 2^(e+1)\<close>.\<close>

function ilog2 :: "rat \<Rightarrow> int" where
  "ilog2 x =
     (if x \<le> 0 then 0
      else if 2 \<le> x then ilog2 (x / 2) + 1
      else if x < 1 then ilog2 (x * 2) - 1
      else 0)"
  by pat_completeness auto
termination
proof (relation "measure (\<lambda>x. nat \<lfloor>x\<rfloor> + 2 * nat \<lceil>1 / x\<rceil>)")
  show "wf (measure (\<lambda>x. nat \<lfloor>x\<rfloor> + 2 * nat \<lceil>1 / x\<rceil>))" by simp
next
  fix x :: rat
  assume "\<not> x \<le> 0" "2 \<le> x"
  then have a: "\<lceil>1 / x\<rceil> = 1" "\<lceil>1 / (x / 2)\<rceil> = 1"
    by (simp_all add: ceiling_eq_iff field_simps)
  have "x / 2 \<le> x - 1" using \<open>2 \<le> x\<close> by simp
  then have "\<lfloor>x / 2\<rfloor> \<le> \<lfloor>x - 1\<rfloor>" by (rule floor_mono)
  then have "\<lfloor>x / 2\<rfloor> < \<lfloor>x\<rfloor>" by simp
  moreover have "0 < \<lfloor>x\<rfloor>" using \<open>2 \<le> x\<close> by simp
  ultimately show "(x / 2, x) \<in> measure (\<lambda>x. nat \<lfloor>x\<rfloor> + 2 * nat \<lceil>1 / x\<rceil>)"
    using a by simp
next
  fix x :: rat
  assume h: "\<not> x \<le> 0" "\<not> 2 \<le> x" "x < 1"
  then have f: "\<lfloor>x\<rfloor> = 0" by (simp add: floor_eq_iff)
  have g: "\<lfloor>x * 2\<rfloor> \<le> 1" using h by (simp add: floor_le_iff)
  have p: "1 < 1 / x" using h by simp
  then have c2: "2 \<le> \<lceil>1 / x\<rceil>" by (simp add: le_ceiling_iff)
  have "1 / (x * 2) \<le> of_int \<lceil>1 / x\<rceil> / 2"
    using le_of_int_ceiling[of "1 / x"] by simp
  also have "\<dots> \<le> of_int (\<lceil>1 / x\<rceil> - 1)"
    using c2 by simp
  finally have "1 / (x * 2) \<le> of_int (\<lceil>1 / x\<rceil> - 1)" .
  then have "\<lceil>1 / (x * 2)\<rceil> \<le> \<lceil>1 / x\<rceil> - 1"
    by (rule ceiling_le)
  moreover have "0 \<le> \<lfloor>x * 2\<rfloor>" using h by simp
  ultimately have "nat \<lfloor>x * 2\<rfloor> + 2 * nat \<lceil>1 / (x * 2)\<rceil> < nat \<lfloor>x\<rfloor> + 2 * nat \<lceil>1 / x\<rceil>"
    using f g c2 by linarith
  then show "(x * 2, x) \<in> measure (\<lambda>x. nat \<lfloor>x\<rfloor> + 2 * nat \<lceil>1 / x\<rceil>)"
    by simp
qed

declare ilog2.simps [simp del]

text \<open>The nearest integer, a tie going to the even one.\<close>

definition rne :: "rat \<Rightarrow> int" where
  "rne y =
     (let f = \<lfloor>y\<rfloor>; r = y - of_int f
      in if r < 1 / 2 then f
         else if 1 / 2 < r then f + 1
         else if even f then f else f + 1)"

text \<open>The nearest double: 53 significant bits.\<close>

definition fl :: "rat \<Rightarrow> rat" where
  "fl x =
     (if x = 0 then 0
      else (let u = pow2 (ilog2 \<bar>x\<bar> - 52)
            in sgn x * of_int (rne (\<bar>x\<bar> / u)) * u))"

text \<open>The four operations on finite doubles; the divisor of \<open>ddiv\<close> is not 0 where
  it is used.\<close>

definition dadd :: "rat \<Rightarrow> rat \<Rightarrow> rat" where
  "dadd a b = fl (a + b)"

definition dsub :: "rat \<Rightarrow> rat \<Rightarrow> rat" where
  "dsub a b = fl (a - b)"

definition dmul :: "rat \<Rightarrow> rat \<Rightarrow> rat" where
  "dmul a b = fl (a * b)"

definition ddiv :: "rat \<Rightarrow> rat \<Rightarrow> rat" where
  "ddiv a b = fl (a / b)"

subsection \<open>Numbers with infinities and NaN\<close>

datatype number = Num rat | Inf bool | NaN

text \<open>\<open>Inf True\<close> is \<open>+Infinity\<close>, \<open>Inf False\<close> is \<open>-Infinity\<close>.\<close>

fun js_div :: "number \<Rightarrow> number \<Rightarrow> number" where
  "js_div (Num a) (Num b) =
     (if b = 0 then (if a = 0 then NaN else Inf (0 < a)) else Num (ddiv a b))"
| "js_div (Num a) (Inf q) = Num 0"
| "js_div (Inf p) (Num b) = Inf (p = (0 \<le> b))"
| "js_div _ _ = NaN"

fun js_mul :: "number \<Rightarrow> number \<Rightarrow> number" where
  "js_mul (Num a) (Num b) = Num (dmul a b)"
| "js_mul (Num a) (Inf q) = (if a = 0 then NaN else Inf (q = (0 < a)))"
| "js_mul (Inf p) (Num b) = (if b = 0 then NaN else Inf (p = (0 < b)))"
| "js_mul (Inf p) (Inf q) = Inf (p = q)"
| "js_mul _ _ = NaN"

fun js_sub :: "number \<Rightarrow> number \<Rightarrow> number" where
  "js_sub (Num a) (Num b) = Num (dsub a b)"
| "js_sub (Num a) (Inf q) = Inf (\<not> q)"
| "js_sub (Inf p) (Num b) = Inf p"
| "js_sub (Inf p) (Inf q) = (if p = q then NaN else Inf p)"
| "js_sub _ _ = NaN"

text \<open>\<open>Math.min\<close> and \<open>Math.max\<close>: NaN as soon as one argument is NaN.\<close>

fun js_min :: "number \<Rightarrow> number \<Rightarrow> number" where
  "js_min (Num a) (Num b) = Num (min a b)"
| "js_min (Num a) (Inf q) = (if q then Num a else Inf False)"
| "js_min (Inf p) (Num b) = (if p then Num b else Inf False)"
| "js_min (Inf p) (Inf q) = Inf (p \<and> q)"
| "js_min _ _ = NaN"

fun js_max :: "number \<Rightarrow> number \<Rightarrow> number" where
  "js_max (Num a) (Num b) = Num (max a b)"
| "js_max (Num a) (Inf q) = (if q then Inf True else Num a)"
| "js_max (Inf p) (Num b) = (if p then Inf True else Num b)"
| "js_max (Inf p) (Inf q) = Inf (p \<or> q)"
| "js_max _ _ = NaN"

text \<open>\<open>Math.round\<close> on a finite double: the nearest integer, a tie going up. The
  result is exact.\<close>

definition js_round :: "rat \<Rightarrow> int" where
  "js_round x = \<lfloor>x + 1 / 2\<rfloor>"

text \<open>Errors that the code throws: the \<open>TypeError\<close> of the \<open>URL\<close> constructor, and
  \<open>new Error(message)\<close>.\<close>

datatype js_error = InvalidURL | Error string

subsection \<open>Strings\<close>

text \<open>White space of \<open>\s\<close> and of \<open>trim\<close>, and the line terminators, among the code
  units below 256.\<close>

definition is_space :: "char \<Rightarrow> bool" where
  "is_space c \<longleftrightarrow> (of_char c :: nat) \<in> {9, 10, 11, 12, 13, 32, 160}"

definition is_line_terminator :: "char \<Rightarrow> bool" where
  "is_line_terminator c \<longleftrightarrow> (of_char c :: nat) \<in> {10, 13}"

definition trim :: "string \<Rightarrow> string" where
  "trim s = rev (dropWhile is_space (rev (dropWhile is_space s)))"

definition startsWith :: "string \<Rightarrow> string \<Rightarrow> bool" where
  "startsWith s p \<longleftrightarrow> take (length p) s = p"

fun includes_str :: "string \<Rightarrow> string \<Rightarrow> bool" where
  "includes_str [] p = (p = [])"
| "includes_str (c # cs) p = (take (length p) (c # cs) = p \<or> includes_str cs p)"

text \<open>\<open>s.split(/[...]+/)\<close> for a character class \<open>P\<close>: the pieces between the
  maximal runs of characters of the class; a run at either end leaves an empty piece there,
  and the empty string gives one empty piece.\<close>

function split_runs :: "(char \<Rightarrow> bool) \<Rightarrow> string \<Rightarrow> string \<Rightarrow> string list" where
  "split_runs P cur [] = [cur]"
| "split_runs P cur (c # cs) =
     (if P c then cur # split_runs P [] (dropWhile P cs)
      else split_runs P (cur @ [c]) cs)"
  by pat_completeness auto
termination
  by (relation "measure (\<lambda>(P, cur, s). length s)")
     (auto simp: length_dropWhile_le less_Suc_eq_le)

definition split :: "(char \<Rightarrow> bool) \<Rightarrow> string \<Rightarrow> string list" where
  "split P s = split_runs P [] s"

text \<open>A template literal prints a non-negative integer in decimal.\<close>

definition digit :: "nat \<Rightarrow> char" where
  "digit d = char_of (48 + d)"

function show_nat :: "nat \<Rightarrow> string" where
  "show_nat n = (if n < 10 then [digit n] else show_nat (n div 10) @ [digit (n mod 10)])"
  by pat_completeness auto
termination
  by (relation "measure id") auto

declare show_nat.simps [simp del]

definition show_int :: "int \<Rightarrow> string" where
  "show_int i = (if i < 0 then CHR ''-'' # show_nat (nat (- i)) else show_nat (nat i))"

text \<open>\<open>x.toFixed(1)\<close> for a double \<open>x \<ge> 0\<close>: one decimal, the nearest to the exact
  value of \<open>x\<close>, a tie going up.\<close>

definition toFixed1 :: "rat \<Rightarrow> string" where
  "toFixed1 x = (let n = nat \<lfloor>x * 10 + 1 / 2\<rfloor> in show_nat (n div 10) @ ''.'' @ show_nat (n mod 10))"

section \<open>Data model\<close>

datatype impact = High | Medium | Low

datatype status = Pass | Fail | Warning

datatype factor_value = NumV int | StrV string

record SEOFactor =
  ftitle :: string
  description :: string
  impact :: impact
  category :: string
  "value" :: "factor_value option"
  status :: "status option"

record coreWebVitals =
  lcp :: rat
  fid :: rat
  cls :: rat

record TechnicalMetrics =
  pageSpeed :: int
  mobileScore :: int
  httpsEnabled :: bool
  metaTagsCount :: nat
  headingsStructure :: bool
  imageOptimization :: int
  coreWebVitals :: coreWebVitals
  seoScore :: int
  accessibility :: int
  bestPractices :: int
  performance :: int

record heading =
  level :: nat
  "text" :: string

record image =
  src :: string
  alt :: string
  hasAlt :: bool

record link =
  href :: string
  link_text :: string
  isInternal :: bool

record pageContent =
  title :: string
  metaDescription :: string
  headings :: "heading list"
  images :: "image list"
  links :: "link list"
  wordCount :: nat
  readabilityScore :: number

text \<open>The metadata of the scrape service is untyped in the source. The model has the keys
  the analyzer reads, each present or absent, and the number of the other keys.\<close>

record metadata =
  m_title :: "string option"
  m_description :: "string option"
  m_url :: "string option"
  m_ogTitle :: "string option"
  m_ogDescription :: "string option"
  m_ogImage :: "string option"
  m_twitterCard :: "string option"
  m_twitterTitle :: "string option"
  m_jsonLd :: "string list option"
  m_otherKeys :: nat

text \<open>\<open>x || ''\<close>: an absent string and the empty string are both falsy.\<close>

definition or_empty :: "string option \<Rightarrow> string" where
  "or_empty x = (case x of None \<Rightarrow> [] | Some s \<Rightarrow> s)"

definition truthy :: "string option \<Rightarrow> bool" where
  "truthy x \<longleftrightarrow> (case x of None \<Rightarrow> False | Some s \<Rightarrow> s \<noteq> [])"

text \<open>What the analyzer reads of \<open>new URL(s)\<close>: the constructor is a parameter of the
  model, \<open>None\<close> where it throws its \<open>TypeError\<close>.\<close>

record url_obj =
  url_string :: string
  hostname :: string

type_synonym url_ctor = "string \<Rightarrow> url_obj option"

section \<open>Content extractor\<close>

subsection \<open>Headings\<close>

text \<open>
  One attempt of \<open>/^(#{1,6})\s+(.+)$/gm\<close> at a line start: the level, the second
  group and the input after the match. The run of \<open>#\<close> must be whole and at most six
  long, since the character after the first group is white space. \<open>\s+\<close> is greedy and
  takes line terminators too; what follows the white space is then a character that
  \<open>.\<close> accepts, and \<open>.+\<close> runs to the end of that line. Only when the input ends with
  the white space does \<open>\s+\<close> give characters back: down to the last one that is no
  line terminator, which alone becomes the second group.
\<close>

definition heading_at :: "string \<Rightarrow> (nat \<times> string \<times> string) option" where
  "heading_at s =
     (let k = length (takeWhile (\<lambda>c. c = CHR ''#'') s);
          r1 = dropWhile (\<lambda>c. c = CHR ''#'') s;
          ws = takeWhile is_space r1;
          r2 = dropWhile is_space r1
      in if k < 1 \<or> 6 < k \<or> ws = [] then None
         else if r2 \<noteq> [] then
           Some (k, takeWhile (\<lambda>c. \<not> is_line_terminator c) r2,
                    dropWhile (\<lambda>c. \<not> is_line_terminator c) r2)
         else (case filter (\<lambda>m. \<not> is_line_terminator (ws ! m)) [1 ..< length ws] of
                 [] \<Rightarrow> None
               | m # ms \<Rightarrow> Some (k, [ws ! last (m # ms)], drop (Suc (last (m # ms))) ws)))"

lemma heading_at_shorter:
  assumes "heading_at s = Some (k, t, r)"
  shows "length r < length s"
proof -
  let ?h = "\<lambda>c. c = CHR ''#''"
  let ?r1 = "dropWhile ?h s"
  let ?ws = "takeWhile is_space ?r1"
  let ?r2 = "dropWhile is_space ?r1"
  have k: "1 \<le> length (takeWhile ?h s)"
  proof (rule ccontr)
    assume "\<not> 1 \<le> length (takeWhile ?h s)"
    then have "length (takeWhile ?h s) < 1" by linarith
    then have "heading_at s = None"
      unfolding heading_at_def Let_def by (simp only: simp_thms if_True)
    with assms show False by simp
  qed
  have s: "length s = length (takeWhile ?h s) + length ?ws + length ?r2"
    by (metis (no_types) add.assoc length_append takeWhile_dropWhile_id)
  show ?thesis
  proof (cases "?r2 = []")
    case False
    with assms have "r = dropWhile (\<lambda>c. \<not> is_line_terminator c) ?r2"
      by (auto simp: heading_at_def Let_def split: if_splits)
    then have "length r \<le> length ?r2"
      by (simp add: length_dropWhile_le)
    with k s show ?thesis by linarith
  next
    case True
    with assms obtain m where "r = drop (Suc m) ?ws"
      by (auto simp: heading_at_def Let_def split: if_splits list.splits)
    then have "length r \<le> length ?ws" by simp
    with k s show ?thesis by linarith
  qed
qed

text \<open>The \<open>exec\<close> loop: \<open>bol\<close> says that the position is a line start (\<open>^\<close> with the
  flag \<open>m\<close>). A match ends on a character that is no line terminator, so the position
  after it is no line start.\<close>

function scan_headings :: "bool \<Rightarrow> string \<Rightarrow> heading list" where
  "scan_headings bol [] = []"
| "scan_headings bol (c # cs) =
     (case (if bol then heading_at (c # cs) else None) of
        Some (k, t, r) \<Rightarrow> \<lparr>level = k, text = trim t\<rparr> # scan_headings False r
      | None \<Rightarrow> scan_headings (is_line_terminator c) cs)"
  by pat_completeness auto
termination
  by (relation "measure (\<lambda>(bol, s). length s)")
     (auto split: if_splits dest: heading_at_shorter)

subsection \<open>Images and links\<close>

text \<open>One attempt of \<open>/!\[([^\]]*)\]\(([^)]+)\)/g\<close>: the alternative text, the source
  and the input after the match.\<close>

definition image_at :: "string \<Rightarrow> (string \<times> string \<times> string) option" where
  "image_at s =
     (case s of
        a # b # r1 \<Rightarrow>
          if a = CHR ''!'' \<and> b = CHR ''['' then
            (case dropWhile (\<lambda>c. c \<noteq> CHR '']'') r1 of
               c # d # r3 \<Rightarrow>
                 if d = CHR ''('' \<and> takeWhile (\<lambda>c. c \<noteq> CHR '')'') r3 \<noteq> [] then
                   (case dropWhile (\<lambda>c. c \<noteq> CHR '')'') r3 of
                      e # r5 \<Rightarrow>
                        Some (takeWhile (\<lambda>c. c \<noteq> CHR '']'') r1,
                              takeWhile (\<lambda>c. c \<noteq> CHR '')'') r3, r5)
                    | [] \<Rightarrow> None)
                 else None
             | _ \<Rightarrow> None)
          else None
      | _ \<Rightarrow> None)"

text \<open>One attempt of \<open>/\[([^\]]+)\]\(([^)]+)\)/g\<close>: the text, the target and the input
  after the match.\<close>

definition link_at :: "string \<Rightarrow> (string \<times> string \<times> string) option" where
  "link_at s =
     (case s of
        b # r1 \<Rightarrow>
          if b = CHR ''['' \<and> takeWhile (\<lambda>c. c \<noteq> CHR '']'') r1 \<noteq> [] then
            (case dropWhile (\<lambda>c. c \<noteq> CHR '']'') r1 of
               c # d # r3 \<Rightarrow>
                 if d = CHR ''('' \<and> takeWhile (\<lambda>c. c \<noteq> CHR '')'') r3 \<noteq> [] then
                   (case dropWhile (\<lambda>c. c \<noteq> CHR '')'') r3 of
                      e # r5 \<Rightarrow>
                        Some (takeWhile (\<lambda>c. c \<noteq> CHR '']'') r1,
                              takeWhile (\<lambda>c. c \<noteq> CHR '')'') r3, r5)
                    | [] \<Rightarrow> None)
                 else None
             | _ \<Rightarrow> None)
          else None
      | _ \<Rightarrow> None)"

lemma dropWhile_Cons_shorter:
  assumes "dropWhile P xs = y # ys"
  shows "length ys < length xs"
proof -
  have "length (dropWhile P xs) \<le> length xs"
    by (rule length_dropWhile_le)
  with assms show ?thesis by simp
qed

lemma image_at_shorter:
  assumes "image_at s = Some (a, h, r)"
  shows "length r < length s"
  using assms
  by (auto simp: image_at_def split: list.splits if_splits
           dest!: dropWhile_Cons_shorter)

lemma link_at_shorter:
  assumes "link_at s = Some (t, h, r)"
  shows "length r < length s"
  using assms
  by (auto simp: link_at_def split: list.splits if_splits
           dest!: dropWhile_Cons_shorter)

function scan_images :: "string \<Rightarrow> image list" where
  "scan_images [] = []"
| "scan_images (c # cs) =
     (case image_at (c # cs) of
        Some (a, h, r) \<Rightarrow> \<lparr>src = h, alt = a, hasAlt = (0 < length a)\<rparr> # scan_images r
      | None \<Rightarrow> scan_images cs)"
  by pat_completeness auto
termination
  by (relation "measure length") (auto dest: image_at_shorter)

text \<open>The matches of the link pattern, as (text, target), in the order of the input.\<close>

function scan_links :: "string \<Rightarrow> (string \<times> string) list" where
  "scan_links [] = []"
| "scan_links (c # cs) =
     (case link_at (c # cs) of
        Some (t, h, r) \<Rightarrow> (t, h) # scan_links r
      | None \<Rightarrow> scan_links cs)"
  by pat_completeness auto
termination
  by (relation "measure length") (auto dest: link_at_shorter)

text \<open>
  \<open>!href.startsWith('http') || href.includes(new URL(metadata.url || '').hostname)\<close>:
  the right operand is evaluated, and the constructor called, only for a target that
  starts with \<open>http\<close>.
\<close>

definition is_internal :: "url_ctor \<Rightarrow> metadata \<Rightarrow> string \<Rightarrow> js_error + bool" where
  "is_internal URL meta h =
     (if \<not> startsWith h ''http'' then Inr True
      else (case URL (or_empty (m_url meta)) of
              None \<Rightarrow> Inl InvalidURL
            | Some u \<Rightarrow> Inr (includes_str h (hostname u))))"

text \<open>The loop that pushes the links stops at the first throw.\<close>

fun build_links :: "url_ctor \<Rightarrow> metadata \<Rightarrow> (string \<times> string) list \<Rightarrow> js_error + link list" where
  "build_links URL meta [] = Inr []"
| "build_links URL meta ((t, h) # ms) =
     (case is_internal URL meta h of
        Inl e \<Rightarrow> Inl e
      | Inr b \<Rightarrow>
          (case build_links URL meta ms of
             Inl e \<Rightarrow> Inl e
           | Inr ls \<Rightarrow> Inr (\<lparr>href = h, link_text = t, isInternal = b\<rparr> # ls)))"

subsection \<open>Word count and readability\<close>

definition count_words :: "string \<Rightarrow> nat" where
  "count_words markdown = length (filter (\<lambda>word. 0 < length word) (split is_space markdown))"

definition count_sentences :: "string \<Rightarrow> nat" where
  "count_sentences markdown =
     length (split (\<lambda>c. c = CHR ''.'' \<or> c = CHR ''!'' \<or> c = CHR ''?'') markdown)"

definition flesch :: "nat \<Rightarrow> nat \<Rightarrow> number" where
  "flesch wc sentences =
     (let syllables = js_mul (Num (of_nat wc)) (Num (fl 1.5))
      in js_max (Num 0) (js_min (Num 100)
           (js_sub (js_sub (Num (fl 206.835))
                      (js_mul (Num (fl 1.015)) (js_div (Num (of_nat wc)) (Num (of_nat sentences)))))
                   (js_mul (Num (fl 84.6)) (js_div syllables (Num (of_nat wc)))))))"

definition analyzePageContent :: "url_ctor \<Rightarrow> string \<Rightarrow> metadata \<Rightarrow> js_error + pageContent" where
  "analyzePageContent URL markdown meta =
     (case build_links URL meta (scan_links markdown) of
        Inl e \<Rightarrow> Inl e
      | Inr ls \<Rightarrow>
          Inr \<lparr>title = or_empty (m_title meta),
               metaDescription = or_empty (m_description meta),
               headings = scan_headings True markdown,
               images = scan_images markdown,
               links = ls,
               wordCount = count_words markdown,
               readabilityScore = flesch (count_words markdown) (count_sentences markdown)\<rparr>)"

section \<open>Factor analyzer\<close>

record factors =
  positiveFactors :: "SEOFactor list"
  negativeFactors :: "SEOFactor list"
  recommendations :: "SEOFactor list"

text \<open>The analyzer pushes to three arrays, one block of the source after the other. Each
  block is a function that gives what it pushes, and \<open>push_all\<close> appends it.\<close>

definition push_all :: "factors \<Rightarrow> factors \<Rightarrow> factors" where
  "push_all a b =
     \<lparr>positiveFactors = positiveFactors a @ positiveFactors b,
      negativeFactors = negativeFactors a @ negativeFactors b,
      recommendations = recommendations a @ recommendations b\<rparr>"

definition no_factors :: factors where
  "no_factors = \<lparr>positiveFactors = [], negativeFactors = [], recommendations = []\<rparr>"

definition title_analysis :: "pageContent \<Rightarrow> factors" where
  "title_analysis pc =
     (if title pc \<noteq> [] then
        (if 30 \<le> length (title pc) \<and> length (title pc) \<le> 60 then
           no_factors\<lparr>positiveFactors :=
             [\<lparr>ftitle = ''Optimal Title Length'',
               description = ''Title is '' @ show_nat (length (title pc)) @
                 '' characters, within the recommended 30-60 range'',
               impact = High, category = ''Content'',
               value = Some (NumV (int (length (title pc)))), status = Some Pass\<rparr>]\<rparr>
         else
           no_factors\<lparr>negativeFactors :=
             [\<lparr>ftitle = ''Suboptimal Title Length'',
               description = ''Title is '' @ show_nat (length (title pc)) @
                 '' characters. Recommended: 30-60 characters'',
               impact = High, category = ''Content'',
               value = Some (NumV (int (length (title pc)))), status = Some Fail\<rparr>],
            recommendations :=
             [\<lparr>ftitle = ''Optimize Title Length'',
               description = ''Adjust your page title to be between 30-60 characters for better search visibility'',
               impact = High, category = ''Content'', value = None, status = None\<rparr>]\<rparr>)
      else
        no_factors\<lparr>negativeFactors :=
          [\<lparr>ftitle = ''Missing Page Title'',
            description = ''Page is missing a title tag, which is crucial for SEO'',
            impact = High, category = ''Content'', value = None, status = Some Fail\<rparr>]\<rparr>)"

definition meta_description_analysis :: "pageContent \<Rightarrow> factors" where
  "meta_description_analysis pc =
     (if metaDescription pc \<noteq> [] then
        (if 120 \<le> length (metaDescription pc) \<and> length (metaDescription pc) \<le> 160 then
           no_factors\<lparr>positiveFactors :=
             [\<lparr>ftitle = ''Good Meta Description'',
               description = ''Meta description is '' @ show_nat (length (metaDescription pc)) @
                 '' characters, within optimal range'',
               impact = Medium, category = ''Content'',
               value = Some (NumV (int (length (metaDescription pc)))), status = Some Pass\<rparr>]\<rparr>
         else
           no_factors\<lparr>negativeFactors :=
             [\<lparr>ftitle = ''Suboptimal Meta Description'',
               description = ''Meta description is '' @ show_nat (length (metaDescription pc)) @
                 '' characters. Recommended: 120-160'',
               impact = Medium, category = ''Content'',
               value = Some (NumV (int (length (metaDescription pc)))), status = Some Warning\<rparr>]\<rparr>)
      else
        no_factors\<lparr>negativeFactors :=
          [\<lparr>ftitle = ''Missing Meta Description'',
            description = ''Page lacks a meta description, missing opportunity for search snippet optimization'',
            impact = Medium, category = ''Content'', value = None, status = Some Fail\<rparr>]\<rparr>)"

definition h1Count :: "pageContent \<Rightarrow> nat" where
  "h1Count pc = length (filter (\<lambda>h. level h = 1) (headings pc))"

definition heading_analysis :: "pageContent \<Rightarrow> factors" where
  "heading_analysis pc =
     (if h1Count pc = 1 then
        no_factors\<lparr>positiveFactors :=
          [\<lparr>ftitle = ''Proper H1 Structure'',
            description = ''Page has exactly one H1 tag, following SEO best practices'',
            impact = High, category = ''Content'', value = None, status = Some Pass\<rparr>]\<rparr>
      else if h1Count pc = 0 then
        no_factors\<lparr>negativeFactors :=
          [\<lparr>ftitle = ''Missing H1 Tag'',
            description = ''Page is missing an H1 tag, which is important for content hierarchy'',
            impact = High, category = ''Content'', value = None, status = Some Fail\<rparr>]\<rparr>
      else
        no_factors\<lparr>negativeFactors :=
          [\<lparr>ftitle = ''Multiple H1 Tags'',
            description = ''Page has '' @ show_nat (h1Count pc) @
              '' H1 tags. Best practice is to have exactly one H1 per page'',
            impact = Medium, category = ''Content'',
            value = Some (NumV (int (h1Count pc))), status = Some Warning\<rparr>]\<rparr>)"

definition image_analysis :: "pageContent \<Rightarrow> factors" where
  "image_analysis pc =
     (let imagesWithoutAlt = length (filter (\<lambda>img. \<not> hasAlt img) (images pc));
          totalImages = length (images pc)
      in if 0 < totalImages then
           (let altTextPercentage =
                  dmul (ddiv (of_nat totalImages - of_nat imagesWithoutAlt) (of_nat totalImages)) 100
            in if 90 \<le> altTextPercentage then
                 no_factors\<lparr>positiveFactors :=
                   [\<lparr>ftitle = ''Good Image Alt Text Coverage'',
                     description = toFixed1 altTextPercentage @ ''% of images have alt text'',
                     impact = Medium, category = ''Accessibility'',
                     value = Some (StrV (toFixed1 altTextPercentage @ ''%'')),
                     status = Some Pass\<rparr>]\<rparr>
               else
                 no_factors\<lparr>negativeFactors :=
                   [\<lparr>ftitle = ''Missing Image Alt Text'',
                     description = show_nat imagesWithoutAlt @ '' out of '' @ show_nat totalImages @
                       '' images are missing alt text'',
                     impact = Medium, category = ''Accessibility'',
                     value = Some (StrV (show_nat imagesWithoutAlt @ ''/'' @ show_nat totalImages)),
                     status = Some Fail\<rparr>]\<rparr>)
         else no_factors)"

definition content_length_analysis :: "pageContent \<Rightarrow> factors" where
  "content_length_analysis pc =
     (if 300 \<le> wordCount pc then
        no_factors\<lparr>positiveFactors :=
          [\<lparr>ftitle = ''Adequate Content Length'',
            description = ''Page has '' @ show_nat (wordCount pc) @
              '' words, providing substantial content for search engines'',
            impact = Medium, category = ''Content'',
            value = Some (NumV (int (wordCount pc))), status = Some Pass\<rparr>]\<rparr>
      else
        no_factors\<lparr>negativeFactors :=
          [\<lparr>ftitle = ''Thin Content'',
            description = ''Page has only '' @ show_nat (wordCount pc) @
              '' words. Consider adding more valuable content'',
            impact = Medium, category = ''Content'',
            value = Some (NumV (int (wordCount pc))), status = Some Warning\<rparr>]\<rparr>)"

definition https_analysis :: "TechnicalMetrics \<Rightarrow> factors" where
  "https_analysis tm =
     (if httpsEnabled tm then
        no_factors\<lparr>positiveFactors :=
          [\<lparr>ftitle = ''HTTPS Enabled'',
            description = ''Website uses secure HTTPS protocol, which is a ranking factor'',
            impact = High, category = ''Security'', value = None, status = Some Pass\<rparr>]\<rparr>
      else
        no_factors\<lparr>negativeFactors :=
          [\<lparr>ftitle = ''HTTPS Not Enabled'',
            description = ''Website is not using HTTPS, which can negatively impact rankings'',
            impact = High, category = ''Security'', value = None, status = Some Fail\<rparr>]\<rparr>)"

definition performance_analysis :: "TechnicalMetrics \<Rightarrow> factors" where
  "performance_analysis tm =
     (if 80 \<le> performance tm then
        no_factors\<lparr>positiveFactors :=
          [\<lparr>ftitle = ''Good Performance Score'',
            description = ''Performance score of '' @ show_int (performance tm) @
              ''/100 indicates fast loading'',
            impact = High, category = ''Performance'',
            value = Some (NumV (performance tm)), status = Some Pass\<rparr>]\<rparr>
      else
        no_factors\<lparr>negativeFactors :=
          [\<lparr>ftitle = ''Poor Performance Score'',
            description = ''Performance score of '' @ show_int (performance tm) @
              ''/100 needs improvement'',
            impact = High, category = ''Performance'',
            value = Some (NumV (performance tm)), status = Some Fail\<rparr>],
         recommendations :=
          [\<lparr>ftitle = ''Improve Page Speed'',
            description = ''Optimize images, minify CSS/JS, and consider using a CDN to improve loading times'',
            impact = High, category = ''Performance'', value = None, status = None\<rparr>]\<rparr>)"

text \<open>The seven blocks, in the order of the source; the metadata is a parameter that no
  block reads.\<close>

definition concerns :: "pageContent \<Rightarrow> TechnicalMetrics \<Rightarrow> factors list" where
  "concerns pc tm =
     [title_analysis pc, meta_description_analysis pc, heading_analysis pc, image_analysis pc,
      content_length_analysis pc, https_analysis tm, performance_analysis tm]"

definition analyzeSEOFactors :: "pageContent \<Rightarrow> metadata \<Rightarrow> TechnicalMetrics \<Rightarrow> factors" where
  "analyzeSEOFactors pc meta tm = foldl push_all no_factors (concerns pc tm)"

section \<open>Structured data and social media\<close>

record structuredData =
  hasSchema :: bool
  types :: "string list"
  errors :: "string list"

record socialMedia =
  hasOpenGraph :: bool
  hasTwitterCards :: bool
  ogTitle :: "string option"
  ogDescription :: "string option"
  ogImage :: "string option"

definition analyzeStructuredData :: "string \<Rightarrow> metadata \<Rightarrow> structuredData" where
  "analyzeStructuredData markdown meta =
     (let hasSchema = (includes_str markdown ''schema.org'' \<or>
                       includes_str markdown ''application/ld+json'' \<or>
                       (case m_jsonLd meta of None \<Rightarrow> False | Some js \<Rightarrow> 0 < length js))
      in \<lparr>hasSchema = hasSchema,
          types = (if hasSchema then [''Organization'', ''WebPage''] else []),
          errors = (if hasSchema then [] else [''No structured data found''])\<rparr>)"

definition analyzeSocialMedia :: "metadata \<Rightarrow> socialMedia" where
  "analyzeSocialMedia meta =
     \<lparr>hasOpenGraph = (truthy (m_ogTitle meta) \<or> truthy (m_ogDescription meta) \<or>
                      truthy (m_ogImage meta)),
      hasTwitterCards = (truthy (m_twitterCard meta) \<or> truthy (m_twitterTitle meta)),
      ogTitle = m_ogTitle meta,
      ogDescription = m_ogDescription meta,
      ogImage = m_ogImage meta\<rparr>"

section \<open>Performance report and technical metrics\<close>

text \<open>The report of the performance service, as far as the analyzer reads it: every level
  may be absent, as the optional chaining of the source allows. Its numbers are doubles.\<close>

record report_category =
  cat_score :: "rat option"

record report_categories =
  cat_performance :: "report_category option"
  cat_accessibility :: "report_category option"
  cat_best_practices :: "report_category option"
  cat_seo :: "report_category option"

record report_audit =
  numericValue :: "rat option"

record report_audits =
  largest_contentful_paint :: "report_audit option"
  first_input_delay :: "report_audit option"
  cumulative_layout_shift :: "report_audit option"

record lighthouseResult =
  categories :: "report_categories option"
  audits :: "report_audits option"

record report =
  lighthouseResult :: "lighthouseResult option"

text \<open>\<open>lighthouseResult?.categories?.c?.score\<close> and
  \<open>lighthouseResult?.audits?.[a]?.numericValue\<close>.\<close>

definition category_score ::
  "report \<Rightarrow> (report_categories \<Rightarrow> report_category option) \<Rightarrow> rat option" where
  "category_score r c =
     Option.bind (lighthouseResult r) (\<lambda>l. Option.bind (categories l) (\<lambda>cs. Option.bind (c cs) cat_score))"

definition audit_value ::
  "report \<Rightarrow> (report_audits \<Rightarrow> report_audit option) \<Rightarrow> rat option" where
  "audit_value r a =
     Option.bind (lighthouseResult r) (\<lambda>l. Option.bind (audits l) (\<lambda>as. Option.bind (a as) numericValue))"

text \<open>\<open>x || d\<close> on a number: the default replaces an absent value, and the falsy
  value 0 as well.\<close>

definition or_default :: "rat option \<Rightarrow> rat \<Rightarrow> rat" where
  "or_default x d = (case x of None \<Rightarrow> d | Some v \<Rightarrow> if v = 0 then d else v)"

text \<open>\<open>Object.keys(metadata).length\<close>.\<close>

definition present :: "'a option \<Rightarrow> nat" where
  "present x = (case x of None \<Rightarrow> 0 | Some _ \<Rightarrow> 1)"

definition count_keys :: "metadata \<Rightarrow> nat" where
  "count_keys meta =
     present (m_title meta) + present (m_description meta) + present (m_url meta) +
     present (m_ogTitle meta) + present (m_ogDescription meta) + present (m_ogImage meta) +
     present (m_twitterCard meta) + present (m_twitterTitle meta) + present (m_jsonLd meta) +
     m_otherKeys meta"

definition build_technicalMetrics ::
  "report \<Rightarrow> string \<Rightarrow> metadata \<Rightarrow> pageContent \<Rightarrow> TechnicalMetrics" where
  "build_technicalMetrics pageSpeedData cleanUrl meta pc =
     \<lparr>pageSpeed = js_round (dmul (or_default (category_score pageSpeedData cat_performance) (fl 0.7)) 100),
      mobileScore = js_round (dmul (or_default (category_score pageSpeedData cat_seo) (fl 0.8)) 100),
      httpsEnabled = startsWith cleanUrl ''https://'',
      metaTagsCount = count_keys meta,
      headingsStructure = (length (filter (\<lambda>h. level h = 1) (headings pc)) = 1),
      imageOptimization =
        js_round (dmul (ddiv (of_nat (length (filter (\<lambda>img. hasAlt img) (images pc))))
                             (of_nat (max (length (images pc)) 1))) 100),
      coreWebVitals =
        \<lparr>lcp = or_default (audit_value pageSpeedData largest_contentful_paint) 2500,
         fid = or_default (audit_value pageSpeedData first_input_delay) 100,
         cls = or_default (audit_value pageSpeedData cumulative_layout_shift) (fl 0.1)\<rparr>,
      seoScore = js_round (dmul (or_default (category_score pageSpeedData cat_seo) (fl 0.75)) 100),
      accessibility = js_round (dmul (or_default (category_score pageSpeedData cat_accessibility) (fl 0.8)) 100),
      bestPractices = js_round (dmul (or_default (category_score pageSpeedData cat_best_practices) (fl 0.85)) 100),
      performance = js_round (dmul (or_default (category_score pageSpeedData cat_performance) (fl 0.7)) 100)\<rparr>"

section \<open>Score\<close>

definition overall_score :: "TechnicalMetrics \<Rightarrow> nat \<Rightarrow> int" where
  "overall_score tm n =
     js_round
       (dadd (dadd (dadd (dadd (dmul (of_int (seoScore tm)) (fl 0.3))
                               (dmul (of_int (performance tm)) (fl 0.25)))
                         (dmul (of_int (accessibility tm)) (fl 0.2)))
                   (dmul (of_int (bestPractices tm)) (fl 0.15)))
             (dmul (of_int (max 0 (100 - int n * 5))) (fl 0.1)))"

section \<open>Collaborators and the audit\<close>

text \<open>What the scrape service returns, as far as the analyzer reads it.\<close>

record scrape_result =
  sr_markdown :: string
  sr_metadata :: metadata

record response =
  resp_status :: int
  body :: report

text \<open>
  The environment of one audit: the \<open>URL\<close> constructor, the scrape service
  (\<open>blink.data.scrape\<close>), the request to the performance service
  (\<open>blink.data.fetch\<close>, by the page's address) and the successive values of
  \<open>Math.random()\<close>. A service that throws returns \<open>Inl\<close>.
\<close>

record env =
  URL :: url_ctor
  scrape :: "string \<Rightarrow> js_error + scrape_result"
  fetch :: "string \<Rightarrow> js_error + response"
  random :: "nat \<Rightarrow> rat"

text \<open>What an audit does besides returning: the calls of the progress callback and of the
  two services, and the lines of \<open>console.error\<close>, in their order.\<close>

datatype event =
  Progress int
| ScrapeCall string
| FetchCall string
| ConsoleError string js_error

definition scrapeWebsite :: "env \<Rightarrow> string \<Rightarrow> event list \<times> (js_error + scrape_result)" where
  "scrapeWebsite E u =
     (case scrape E u of
        Inr r \<Rightarrow> ([ScrapeCall u], Inr r)
      | Inl error \<Rightarrow>
          ([ScrapeCall u, ConsoleError ''Error scraping website:'' error],
           Inl (Error ''Failed to analyze website. Please check the URL and try again.'')))"

definition getMockPageSpeedData :: "(nat \<Rightarrow> rat) \<Rightarrow> report" where
  "getMockPageSpeedData rnd =
     \<lparr>lighthouseResult = Some
        \<lparr>categories = Some
           \<lparr>cat_performance = Some \<lparr>cat_score = Some (dadd (dmul (rnd 0) (fl 0.4)) (fl 0.6))\<rparr>,
            cat_accessibility = Some \<lparr>cat_score = Some (dadd (dmul (rnd 1) (fl 0.3)) (fl 0.7))\<rparr>,
            cat_best_practices = Some \<lparr>cat_score = Some (dadd (dmul (rnd 2) (fl 0.2)) (fl 0.8))\<rparr>,
            cat_seo = Some \<lparr>cat_score = Some (dadd (dmul (rnd 3) (fl 0.3)) (fl 0.7))\<rparr>\<rparr>,
         audits = Some
           \<lparr>largest_contentful_paint = Some \<lparr>numericValue = Some (dadd (dmul (rnd 4) 2000) 1000)\<rparr>,
            first_input_delay = Some \<lparr>numericValue = Some (dadd (dmul (rnd 5) 100) 50)\<rparr>,
            cumulative_layout_shift = Some \<lparr>numericValue = Some (dadd (dmul (rnd 6) (fl 0.1)) (fl 0.05))\<rparr>\<rparr>\<rparr>\<rparr>"

definition getPageSpeedInsights :: "env \<Rightarrow> string \<Rightarrow> event list \<times> report" where
  "getPageSpeedInsights E u =
     (case fetch E u of
        Inr response \<Rightarrow>
          if resp_status response = 200 then ([FetchCall u], body response)
          else ([FetchCall u], getMockPageSpeedData (random E))
      | Inl error \<Rightarrow>
          ([FetchCall u, ConsoleError ''PageSpeed API error:'' error],
           getMockPageSpeedData (random E)))"

record AuditResult = factors +
  score :: int
  url :: string
  technicalMetrics :: TechnicalMetrics
  pageContent :: pageContent
  structuredData :: structuredData
  socialMedia :: socialMedia

text \<open>\<open>onProgress?.(n)\<close>: \<open>cb\<close> says that the caller gave a callback.\<close>

definition onProgress :: "bool \<Rightarrow> int \<Rightarrow> event list" where
  "onProgress cb n = (if cb then [Progress n] else [])"

text \<open>The part of the audit after the two services have answered and the content has been
  extracted: it calls nothing that throws.\<close>

definition assemble :: "string \<Rightarrow> scrape_result \<Rightarrow> report \<Rightarrow> pageContent \<Rightarrow> AuditResult" where
  "assemble cleanUrl sr pageSpeedData pc =
     (let tm = build_technicalMetrics pageSpeedData cleanUrl (sr_metadata sr) pc;
          fs = analyzeSEOFactors pc (sr_metadata sr) tm
      in \<lparr>positiveFactors = positiveFactors fs,
          negativeFactors = negativeFactors fs,
          recommendations = recommendations fs,
          score = overall_score tm (length (negativeFactors fs)),
          url = cleanUrl,
          technicalMetrics = tm,
          pageContent = pc,
          structuredData = analyzeStructuredData (sr_markdown sr) (sr_metadata sr),
          socialMedia = analyzeSocialMedia (sr_metadata sr)\<rparr>)"

text \<open>Every throw inside the \<open>try\<close> is caught, logged and thrown again.\<close>

definition analyzeWebsite :: "env \<Rightarrow> string \<Rightarrow> bool \<Rightarrow> event list \<times> (js_error + AuditResult)" where
  "analyzeWebsite E u cb =
     (case URL E u of
        None \<Rightarrow> ([ConsoleError ''SEO analysis error:'' InvalidURL], Inl InvalidURL)
      | Some urlObj \<Rightarrow>
          (let cleanUrl = url_string urlObj in
           case scrapeWebsite E cleanUrl of
             (t1, Inl error) \<Rightarrow>
               (onProgress cb 10 @ t1 @ [ConsoleError ''SEO analysis error:'' error], Inl error)
           | (t1, Inr sr) \<Rightarrow>
               (case getPageSpeedInsights E cleanUrl of
                  (t2, pageSpeedData) \<Rightarrow>
                    (let t3 = onProgress cb 10 @ t1 @ onProgress cb 30 @ t2 @ onProgress cb 60 in
                     case analyzePageContent (URL E) (sr_markdown sr) (sr_metadata sr) of
                       Inl error \<Rightarrow> (t3 @ [ConsoleError ''SEO analysis error:'' error], Inl error)
                     | Inr pc \<Rightarrow>
                         (t3 @ onProgress cb 70 @ onProgress cb 80 @ onProgress cb 90 @
                            onProgress cb 100,
                          Inr (assemble cleanUrl sr pageSpeedData pc))))))"

section \<open>Example inputs\<close>

text \<open>A page, its metadata, a complete report and an environment that serves them. The
  table of the constructor lists what \<open>new URL\<close> gives on the strings of the examples;
  the empty string is no address.\<close>

definition example_URL :: url_ctor where
  "example_URL s =
     (if s = ''https://example.com'' \<or> s = ''https://example.com/'' then
        Some \<lparr>url_string = ''https://example.com/'', hostname = ''example.com''\<rparr>
      else if s = ''http://shop.test/'' then
        Some \<lparr>url_string = ''http://shop.test/'', hostname = ''shop.test''\<rparr>
      else None)"

definition example_markdown :: string where
  "example_markdown =
     ''# Welcome'' @ [CHR 0x0A] @
     ''Read [the docs](/docs) or [the blog](https://example.com/blog). '' @
     ''See [a friend](https://other.test/). ![logo](logo.png) ![](banner.png)''"

definition example_metadata :: metadata where
  "example_metadata =
     \<lparr>m_title = Some ''Example Domain: a page for examples'',
      m_description = Some ''An example page'',
      m_url = Some ''https://example.com/'',
      m_ogTitle = Some ''Example'',
      m_ogDescription = None,
      m_ogImage = None,
      m_twitterCard = None,
      m_twitterTitle = None,
      m_jsonLd = None,
      m_otherKeys = 2\<rparr>"

definition example_report :: report where
  "example_report =
     \<lparr>lighthouseResult = Some
        \<lparr>categories = Some
           \<lparr>cat_performance = Some \<lparr>cat_score = Some (fl 0.92)\<rparr>,
            cat_accessibility = Some \<lparr>cat_score = Some (fl 0.88)\<rparr>,
            cat_best_practices = Some \<lparr>cat_score = Some 1\<rparr>,
            cat_seo = Some \<lparr>cat_score = Some (fl 0.745)\<rparr>\<rparr>,
         audits = Some
           \<lparr>largest_contentful_paint = Some \<lparr>numericValue = Some 1800\<rparr>,
            first_input_delay = Some \<lparr>numericValue = Some 16\<rparr>,
            cumulative_layout_shift = Some \<lparr>numericValue = Some (fl 0.02)\<rparr>\<rparr>\<rparr>\<rparr>"

definition example_scrape :: scrape_result where
  "example_scrape = \<lparr>sr_markdown = example_markdown, sr_metadata = example_metadata\<rparr>"

definition example_env :: env where
  "example_env =
     \<lparr>URL = example_URL,
      scrape = (\<lambda>u. Inr example_scrape),
      fetch = (\<lambda>u. Inr \<lparr>resp_status = 200, body = example_report\<rparr>),
      random = (\<lambda>n. 1 / 2)\<rparr>"

text \<open>The content of the example page, its technical metrics under the example report,
  and the result and the effects of its audit.\<close>

definition example_page :: pageContent where
  "example_page =
     \<lparr>title = ''Example Domain: a page for examples'',
      metaDescription = ''An example page'',
      headings = [\<lparr>level = 1, text = ''Welcome''\<rparr>],
      images = [\<lparr>src = ''logo.png'', alt = ''logo'', hasAlt = True\<rparr>,
                \<lparr>src = ''banner.png'', alt = [], hasAlt = False\<rparr>],
      links = [\<lparr>href = ''/docs'', link_text = ''the docs'', isInternal = True\<rparr>,
               \<lparr>href = ''https://example.com/blog'', link_text = ''the blog'', isInternal = True\<rparr>,
               \<lparr>href = ''https://other.test/'', link_text = ''a friend'', isInternal = False\<rparr>,
               \<lparr>href = ''logo.png'', link_text = ''logo'', isInternal = True\<rparr>],
      wordCount = 13,
      readabilityScore = Num (5521757168127765 / 70368744177664)\<rparr>"

definition example_result :: AuditResult where
  "example_result = assemble ''https://example.com/'' example_scrape example_report example_page"

definition example_trace :: "event list" where
  "example_trace =
     [Progress 10, ScrapeCall ''https://example.com/'', Progress 30,
      FetchCall ''https://example.com/'', Progress 60, Progress 70, Progress 80, Progress 90,
      Progress 100]"

definition example_metrics :: TechnicalMetrics where
  "example_metrics =
     \<lparr>pageSpeed = 92, mobileScore = 75, httpsEnabled = True, metaTagsCount = 6,
      headingsStructure = True, imageOptimization = 50,
      coreWebVitals = \<lparr>lcp = 1800, fid = 16, cls = fl 0.02\<rparr>,
      seoScore = 75, accessibility = 88, bestPractices = 100, performance = 92\<rparr>"

text \<open>The same environment with a scrape service that fails.\<close>

definition failing_scrape_env :: env where
  "failing_scrape_env = example_env\<lparr>scrape := (\<lambda>u. Inl (Error ''503 Service Unavailable''))\<rparr>"

text \<open>A report whose performance score is 0, and a report with nothing in it.\<close>

definition zero_performance_report :: report where
  "zero_performance_report =
     \<lparr>lighthouseResult = Some
        \<lparr>categories = Some
           \<lparr>cat_performance = Some \<lparr>cat_score = Some 0\<rparr>,
            cat_accessibility = Some \<lparr>cat_score = Some (fl 0.88)\<rparr>,
            cat_best_practices = Some \<lparr>cat_score = Some 1\<rparr>,
            cat_seo = Some \<lparr>cat_score = Some (fl 0.745)\<rparr>\<rparr>,
         audits = None\<rparr>\<rparr>"

definition empty_report :: report where
  "empty_report = \<lparr>lighthouseResult = None\<rparr>"

text \<open>The example page scraped with metadata that has no \<open>url\<close>.\<close>

definition urlless_env :: env where
  "urlless_env =
     example_env\<lparr>scrape := (\<lambda>u. Inr \<lparr>sr_markdown = example_markdown,
                                          sr_metadata = example_metadata\<lparr>m_url := None\<rparr>\<rparr>)\<rparr>"

text \<open>Eighty words in one sentence, and the content extracted from them.\<close>

definition long_sentence :: string where
  "long_sentence = concat (replicate 80 ''a '')"

definition long_page :: pageContent where
  "long_page =
     \<lparr>title = ''Example Domain: a page for examples'',
      metaDescription = ''An example page'',
      headings = [], images = [], links = [],
      wordCount = 80,
      readabilityScore = Num 0\<rparr>"

text \<open>A page that fails every concern of the factor analyzer, and pages that differ from
  the example page by the length of the title only.\<close>

definition bad_page :: pageContent where
  "bad_page =
     \<lparr>title = ''Home'', metaDescription = [], headings = [],
      images = [\<lparr>src = ''a.png'', alt = [], hasAlt = False\<rparr>],
      links = [], wordCount = 2, readabilityScore = Num (fl 78.92)\<rparr>"

definition bad_metrics :: TechnicalMetrics where
  "bad_metrics = example_metrics\<lparr>httpsEnabled := False, performance := 50\<rparr>"


text \<open>A page with forty images, twenty-three of them with an alternative text.\<close>

definition tie_page :: pageContent where
  "tie_page =
     example_page\<lparr>images :=
       replicate 23 \<lparr>src = ''a.png'', alt = ''a'', hasAlt = True\<rparr> @
       replicate 17 \<lparr>src = ''b.png'', alt = [], hasAlt = False\<rparr>\<rparr>"

text \<open>A page served over plain HTTP that fails every concern, with a report whose four
  scores are 0.02, 0.14, 0.91 and 0.18: the content extracted from it and the result of
  its audit.\<close>

definition half_markdown :: string where
  "half_markdown = ''![](a.png)''"

definition half_metadata :: metadata where
  "half_metadata =
     \<lparr>m_title = None, m_description = None, m_url = None, m_ogTitle = None,
      m_ogDescription = None, m_ogImage = None, m_twitterCard = None, m_twitterTitle = None,
      m_jsonLd = None, m_otherKeys = 0\<rparr>"

definition half_report :: report where
  "half_report =
     \<lparr>lighthouseResult = Some
        \<lparr>categories = Some
           \<lparr>cat_performance = Some \<lparr>cat_score = Some (fl 0.14)\<rparr>,
            cat_accessibility = Some \<lparr>cat_score = Some (fl 0.91)\<rparr>,
            cat_best_practices = Some \<lparr>cat_score = Some (fl 0.18)\<rparr>,
            cat_seo = Some \<lparr>cat_score = Some (fl 0.02)\<rparr>\<rparr>,
         audits = None\<rparr>\<rparr>"

definition half_scrape :: scrape_result where
  "half_scrape = \<lparr>sr_markdown = half_markdown, sr_metadata = half_metadata\<rparr>"

definition half_env :: env where
  "half_env =
     \<lparr>URL = example_URL,
      scrape = (\<lambda>u. Inr half_scrape),
      fetch = (\<lambda>u. Inr \<lparr>resp_status = 200, body = half_report\<rparr>),
      random = (\<lambda>n. 1 / 2)\<rparr>"

definition half_page :: pageContent where
  "half_page =
     \<lparr>title = [], metaDescription = [], headings = [],
      images = [\<lparr>src = ''a.png'', alt = [], hasAlt = False\<rparr>],
      links = [], wordCount = 1, readabilityScore = flesch 1 3\<rparr>"

definition half_result :: AuditResult where
  "half_result = assemble ''http://shop.test/'' half_scrape half_report half_page"

section \<open>Shared facts\<close>

text \<open>An audit that returns a result has parsed the address, scraped the page, extracted
  the content, and assembled the result from them.\<close>

lemma analyzeWebsite_returns:
  assumes "analyzeWebsite E u cb = (tr, Inr res)"
  shows "\<exists>urlObj sr pc.
           URL E u = Some urlObj \<and>
           scrape E (url_string urlObj) = Inr sr \<and>
           analyzePageContent (URL E) (sr_markdown sr) (sr_metadata sr) = Inr pc \<and>
           res = assemble (url_string urlObj) sr
                   (snd (getPageSpeedInsights E (url_string urlObj))) pc"
  using assms
  by (auto simp: analyzeWebsite_def scrapeWebsite_def Let_def
           split: option.splits sum.splits prod.splits)

lemma assemble_fields:
  "technicalMetrics (assemble c sr r pc) = build_technicalMetrics r c (sr_metadata sr) pc"
  "negativeFactors (assemble c sr r pc) =
     negativeFactors (analyzeSEOFactors pc (sr_metadata sr) (build_technicalMetrics r c (sr_metadata sr) pc))"
  "score (assemble c sr r pc) =
     overall_score (technicalMetrics (assemble c sr r pc)) (length (negativeFactors (assemble c sr r pc)))"
  "pageContent (assemble c sr r pc) = pc"
  by (simp_all add: assemble_def Let_def)

subsection \<open>Rounding errors\<close>

lemma pow2_pos: "0 < pow2 k"
  by (simp add: pow2_def)

lemma pow2_Suc: "pow2 (k + 1) = 2 * pow2 k"
proof (cases "0 \<le> k")
  case True
  then show ?thesis by (simp add: pow2_def nat_add_distrib)
next
  case False
  then have "nat (- k) = Suc (nat (- (k + 1)))" by simp
  with False show ?thesis by (simp add: pow2_def)
qed

lemma pow2_pred: "pow2 (k - 1) = pow2 k / 2"
  using pow2_Suc[of "k - 1"] by simp

lemma pow2_add_nat: "pow2 (k + int n) = pow2 k * 2 ^ n"
proof (induction n)
  case 0
  show ?case by simp
next
  case (Suc n)
  have "k + int (Suc n) = (k + int n) + 1" by simp
  then have "pow2 (k + int (Suc n)) = 2 * pow2 (k + int n)"
    by (simp only: pow2_Suc)
  with Suc show ?case by simp
qed

lemma ilog2_lower:
  assumes "0 < x"
  shows "pow2 (ilog2 x) \<le> x"
  using assms
proof (induction x rule: ilog2.induct)
  case (1 x)
  show ?case
  proof (cases "2 \<le> x")
    case True
    with 1 have "pow2 (ilog2 (x / 2)) \<le> x / 2" by simp
    moreover have "ilog2 x = ilog2 (x / 2) + 1"
      using True 1(3) by (subst ilog2.simps) simp
    ultimately show ?thesis by (simp add: pow2_Suc)
  next
    case False
    show ?thesis
    proof (cases "x < 1")
      case True
      with False 1 have "pow2 (ilog2 (x * 2)) \<le> x * 2" by simp
      moreover have "ilog2 x = ilog2 (x * 2) - 1"
        using True False 1(3) by (subst ilog2.simps) simp
      ultimately show ?thesis by (simp add: pow2_pred)
    next
      case n: False
      then have "ilog2 x = 0"
        using False 1(3) by (subst ilog2.simps) simp
      with n show ?thesis by (simp add: pow2_def)
    qed
  qed
qed

lemma rne_error: "\<bar>of_int (rne y) - y\<bar> \<le> 1 / 2"
proof -
  have "of_int \<lfloor>y\<rfloor> \<le> y" "y < of_int \<lfloor>y\<rfloor> + 1"
    by linarith+
  then show ?thesis
    by (auto simp: rne_def Let_def abs_le_iff; linarith)
qed

text \<open>The relative error of a rounding is at most \<open>2^-53\<close>.\<close>

lemma fl_error: "\<bar>fl x - x\<bar> \<le> \<bar>x\<bar> / 2 ^ 53"
proof (cases "x = 0")
  case True
  then show ?thesis by (simp add: fl_def)
next
  case False
  define u where "u = pow2 (ilog2 \<bar>x\<bar> - 52)"
  define m where "m = rne (\<bar>x\<bar> / u)"
  have u: "0 < u" by (simp add: u_def pow2_pos)
  have eu: "pow2 (ilog2 \<bar>x\<bar>) = u * 2 ^ 52"
    using pow2_add_nat[of "ilog2 \<bar>x\<bar> - 52" 52] by (simp add: u_def)
  have lo: "pow2 (ilog2 \<bar>x\<bar>) \<le> \<bar>x\<bar>"
    using False by (intro ilog2_lower) simp
  have f: "fl x = sgn x * (of_int m * u)"
    using False by (simp add: fl_def Let_def m_def u_def)
  have x: "x = sgn x * \<bar>x\<bar>"
    by (simp add: sgn_mult_abs)
  have "fl x - x = sgn x * (of_int m * u - \<bar>x\<bar>)"
    by (subst x, subst f) (simp add: right_diff_distrib)
  then have "\<bar>fl x - x\<bar> = \<bar>of_int m * u - \<bar>x\<bar>\<bar>"
    using False by (simp add: abs_mult abs_sgn_eq)
  also have "\<dots> = \<bar>of_int m - \<bar>x\<bar> / u\<bar> * u"
  proof -
    have "of_int m * u - \<bar>x\<bar> = (of_int m - \<bar>x\<bar> / u) * u"
      using u by (simp add: field_simps)
    then show ?thesis using u by (simp add: abs_mult)
  qed
  also have "\<dots> \<le> (1 / 2) * u"
    using rne_error[of "\<bar>x\<bar> / u"] u by (intro mult_right_mono) (simp_all add: m_def)
  also have "\<dots> = pow2 (ilog2 \<bar>x\<bar>) / 2 ^ 53"
    by (simp add: eu)
  also have "\<dots> \<le> \<bar>x\<bar> / 2 ^ 53"
    using lo by (simp add: divide_right_mono)
  finally show ?thesis .
qed

lemma fl_between:
  assumes "0 \<le> x" and "x \<le> K"
  shows "0 \<le> fl x" and "fl x \<le> K * (1 + 1 / 2 ^ 53)"
proof -
  have e: "\<bar>fl x - x\<bar> \<le> x / 2 ^ 53"
    using fl_error[of x] assms(1) by simp
  have "x / 2 ^ 53 \<le> x"
    using assms(1) by (simp add: field_simps)
  with e show "0 \<le> fl x" by linarith
  have "x / 2 ^ 53 \<le> K / 2 ^ 53"
    using assms(2) by (simp add: divide_right_mono)
  with e assms(2) have "fl x \<le> K + K / 2 ^ 53" by linarith
  then show "fl x \<le> K * (1 + 1 / 2 ^ 53)"
    by (simp add: algebra_simps)
qed

lemma dmul_between:
  assumes "0 \<le> a" "a \<le> A" "0 \<le> c" "c \<le> C"
  shows "0 \<le> dmul a c" and "dmul a c \<le> A * C * (1 + 1 / 2 ^ 53)"
proof -
  have "0 \<le> a * c" using assms by simp
  moreover have "a * c \<le> A * C" using assms by (intro mult_mono) simp_all
  ultimately show "0 \<le> dmul a c" and "dmul a c \<le> A * C * (1 + 1 / 2 ^ 53)"
    unfolding dmul_def by (rule fl_between)+
qed

lemma dadd_between:
  assumes "0 \<le> x" "x \<le> X" "0 \<le> y" "y \<le> Y"
  shows "0 \<le> dadd x y" and "dadd x y \<le> (X + Y) * (1 + 1 / 2 ^ 53)"
proof -
  have "0 \<le> x + y" "x + y \<le> X + Y" using assms by simp_all
  then show "0 \<le> dadd x y" and "dadd x y \<le> (X + Y) * (1 + 1 / 2 ^ 53)"
    unfolding dadd_def by (rule fl_between)+
qed

lemma weights:
  "0 \<le> fl 0.3" "fl 0.3 \<le> 0.30001" "0 \<le> fl 0.25" "fl 0.25 \<le> 0.25"
  "0 \<le> fl 0.2" "fl 0.2 \<le> 0.20001" "0 \<le> fl 0.15" "fl 0.15 \<le> 0.15001"
  "0 \<le> fl 0.1" "fl 0.1 \<le> 0.10001"
  by code_simp+

lemma weighted_sum_range:
  assumes "0 \<le> a" "a \<le> 100" "0 \<le> b" "b \<le> 100" "0 \<le> c" "c \<le> 100"
      and "0 \<le> d" "d \<le> 100" "0 \<le> e" "e \<le> 100"
  shows "0 \<le> dadd (dadd (dadd (dadd (dmul a (fl 0.3)) (dmul b (fl 0.25))) (dmul c (fl 0.2)))
                       (dmul d (fl 0.15))) (dmul e (fl 0.1))"
    and "dadd (dadd (dadd (dadd (dmul a (fl 0.3)) (dmul b (fl 0.25))) (dmul c (fl 0.2)))
                       (dmul d (fl 0.15))) (dmul e (fl 0.1)) \<le> 100.01"
proof -
  note pa = dmul_between[OF assms(1,2) weights(1,2)]
  note pb = dmul_between[OF assms(3,4) weights(3,4)]
  note pc = dmul_between[OF assms(5,6) weights(5,6)]
  note pd = dmul_between[OF assms(7,8) weights(7,8)]
  note pe = dmul_between[OF assms(9,10) weights(9,10)]
  note s1 = dadd_between[OF pa pb]
  note s2 = dadd_between[OF s1 pc]
  note s3 = dadd_between[OF s2 pd]
  note s4 = dadd_between[OF s3 pe]
  show "0 \<le> dadd (dadd (dadd (dadd (dmul a (fl 0.3)) (dmul b (fl 0.25))) (dmul c (fl 0.2)))
                       (dmul d (fl 0.15))) (dmul e (fl 0.1))"
    by (rule s4(1))
  have "((((100 * 0.30001 * (1 + 1 / 2 ^ 53) + 100 * 0.25 * (1 + 1 / 2 ^ 53)) * (1 + 1 / 2 ^ 53) +
            100 * 0.20001 * (1 + 1 / 2 ^ 53)) * (1 + 1 / 2 ^ 53) +
            100 * 0.15001 * (1 + 1 / 2 ^ 53)) * (1 + 1 / 2 ^ 53) +
            100 * 0.10001 * (1 + 1 / 2 ^ 53)) * (1 + 1 / 2 ^ 53) \<le> (100.01 :: rat)"
    by code_simp
  with s4(2) show "dadd (dadd (dadd (dadd (dmul a (fl 0.3)) (dmul b (fl 0.25))) (dmul c (fl 0.2)))
                       (dmul d (fl 0.15))) (dmul e (fl 0.1)) \<le> 100.01"
    by (rule order_trans)
qed

lemma fl_abs_error:
  assumes "0 \<le> x" and "x \<le> K"
  shows "- (K / 2 ^ 53) \<le> fl x - x" and "fl x - x \<le> K / 2 ^ 53"
proof -
  have e: "\<bar>fl x - x\<bar> \<le> x / 2 ^ 53"
    using fl_error[of x] assms(1) by simp
  have k: "x / 2 ^ 53 \<le> K / 2 ^ 53"
    using assms(2) by (simp add: divide_right_mono)
  from e k show "- (K / 2 ^ 53) \<le> fl x - x" by linarith
  from e k show "fl x - x \<le> K / 2 ^ 53" by linarith
qed

text \<open>A product of a score with a weight, and a sum of at most 101, are off the exact
  value by at most \<open>101 / 2^53\<close>.\<close>

lemma dmul_weight_error:
  assumes "0 \<le> a" "a \<le> 100" "0 < w" "w \<le> 1 / 2"
  shows "- (101 / 2 ^ 53) \<le> dmul a (fl w) - a * w" and "dmul a (fl w) - a * w \<le> 101 / 2 ^ 53"
proof -
  have w0: "0 \<le> w" using assms(3) by simp
  note c = fl_between[OF w0 order_refl] fl_abs_error[OF w0 order_refl]
  have c1: "fl w \<le> 51 / 100"
  proof -
    have "w * (1 + 1 / 2 ^ 53) \<le> (1 / 2) * (1 + 1 / 2 ^ 53)"
      using assms(4) by (intro mult_right_mono) simp_all
    also have "\<dots> \<le> (51 / 100 :: rat)" by simp
    finally show ?thesis using c(2) by linarith
  qed
  have p0: "0 \<le> a * fl w" using assms(1) c(1) by simp
  have p1: "a * fl w \<le> 100 * (51 / 100)"
    using assms(1,2) c(1) c1 by (intro mult_mono) simp_all
  then have p2: "a * fl w \<le> 51" by simp
  note r = fl_abs_error[OF p0 p2]
  have d: "a * fl w - a * w = a * (fl w - w)" by (simp add: right_diff_distrib)
  have "a * (fl w - w) \<le> 100 * (w / 2 ^ 53)"
  proof (cases "0 \<le> fl w - w")
    case True
    then show ?thesis using assms(1,2) c(4) by (intro mult_mono) simp_all
  next
    case False
    then have "a * (fl w - w) \<le> 0"
      using assms(1) by (simp add: mult_nonneg_nonpos)
    also have "0 \<le> 100 * (w / 2 ^ 53)" using w0 by simp
    finally show ?thesis .
  qed
  moreover have "- (100 * (w / 2 ^ 53)) \<le> a * (fl w - w)"
  proof (cases "0 \<le> fl w - w")
    case True
    then have "0 \<le> a * (fl w - w)" using assms(1) by simp
    moreover have "0 \<le> 100 * (w / 2 ^ 53)" using w0 by simp
    ultimately show ?thesis by linarith
  next
    case False
    have "a * (w - fl w) \<le> 100 * (w / 2 ^ 53)"
      using False assms(1,2) c(3) by (intro mult_mono) simp_all
    then show ?thesis by (simp add: right_diff_distrib)
  qed
  moreover have "100 * (w / 2 ^ 53) \<le> 50 / 2 ^ 53"
    using assms(4) by simp
  ultimately have q: "- (50 / 2 ^ 53) \<le> a * fl w - a * w" "a * fl w - a * w \<le> 50 / 2 ^ 53"
    using d by linarith+
  from r q show "- (101 / 2 ^ 53) \<le> dmul a (fl w) - a * w"
    unfolding dmul_def by simp
  from r q show "dmul a (fl w) - a * w \<le> 101 / 2 ^ 53"
    unfolding dmul_def by simp
qed

lemma dadd_error:
  assumes "0 \<le> x" "0 \<le> y" "x + y \<le> 101"
  shows "- (101 / 2 ^ 53) \<le> dadd x y - (x + y)" and "dadd x y - (x + y) \<le> 101 / 2 ^ 53"
proof -
  have "0 \<le> x + y" using assms by simp
  from fl_abs_error[OF this assms(3)]
  show "- (101 / 2 ^ 53) \<le> dadd x y - (x + y)" and "dadd x y - (x + y) \<le> 101 / 2 ^ 53"
    unfolding dadd_def by simp_all
qed

lemma weighted_sum_error:
  assumes "0 \<le> a" "a \<le> 100" "0 \<le> b" "b \<le> 100" "0 \<le> c" "c \<le> 100"
      and "0 \<le> d" "d \<le> 100" "0 \<le> e" "e \<le> 100"
      and w: "0 < w1" "w1 \<le> 1 / 2" "0 < w2" "w2 \<le> 1 / 2" "0 < w3" "w3 \<le> 1 / 2"
             "0 < w4" "w4 \<le> 1 / 2" "0 < w5" "w5 \<le> 1 / 2"
      and sum: "w1 + w2 + w3 + w4 + w5 \<le> 1"
  shows "\<bar>dadd (dadd (dadd (dadd (dmul a (fl w1)) (dmul b (fl w2))) (dmul c (fl w3)))
                       (dmul d (fl w4))) (dmul e (fl w5))
          - (a * w1 + b * w2 + c * w3 + d * w4 + e * w5)\<bar> \<le> 1 / 1000"
proof -
  define E :: rat where "E = 101 / 2 ^ 53"
  define pa where "pa = dmul a (fl w1)"
  define pb where "pb = dmul b (fl w2)"
  define pc where "pc = dmul c (fl w3)"
  define pd where "pd = dmul d (fl w4)"
  define pe where "pe = dmul e (fl w5)"
  define s1 where "s1 = dadd pa pb"
  define s2 where "s2 = dadd s1 pc"
  define s3 where "s3 = dadd s2 pd"
  define s4 where "s4 = dadd s3 pe"
  have tiny: "0 \<le> E" "E \<le> 1 / 10000"
    by (simp_all add: E_def)
  note ea = dmul_weight_error[OF assms(1,2) w(1,2), folded pa_def E_def]
  note eb = dmul_weight_error[OF assms(3,4) w(3,4), folded pb_def E_def]
  note ec = dmul_weight_error[OF assms(5,6) w(5,6), folded pc_def E_def]
  note ed = dmul_weight_error[OF assms(7,8) w(7,8), folded pd_def E_def]
  note ee = dmul_weight_error[OF assms(9,10) w(9,10), folded pe_def E_def]
  have f: "0 \<le> fl w1" "0 \<le> fl w2" "0 \<le> fl w3" "0 \<le> fl w4" "0 \<le> fl w5"
    by (rule fl_between(1)[OF less_imp_le[OF w(1)] order_refl]
             fl_between(1)[OF less_imp_le[OF w(3)] order_refl]
             fl_between(1)[OF less_imp_le[OF w(5)] order_refl]
             fl_between(1)[OF less_imp_le[OF w(7)] order_refl]
             fl_between(1)[OF less_imp_le[OF w(9)] order_refl])+
  have na: "0 \<le> pa" "0 \<le> pb" "0 \<le> pc" "0 \<le> pd" "0 \<le> pe"
    unfolding pa_def pb_def pc_def pd_def pe_def
    by (rule dmul_between(1)[OF assms(1,2) f(1) order_refl]
             dmul_between(1)[OF assms(3,4) f(2) order_refl]
             dmul_between(1)[OF assms(5,6) f(3) order_refl]
             dmul_between(1)[OF assms(7,8) f(4) order_refl]
             dmul_between(1)[OF assms(9,10) f(5) order_refl])+
  have m: "a * w1 \<le> 100 * w1" "b * w2 \<le> 100 * w2" "c * w3 \<le> 100 * w3"
          "d * w4 \<le> 100 * w4" "e * w5 \<le> 100 * w5"
    using assms(2,4,6,8,10) w by (simp_all add: mult_right_mono)
  have p: "0 \<le> a * w1" "0 \<le> b * w2" "0 \<le> c * w3" "0 \<le> d * w4" "0 \<le> e * w5"
    using assms(1,3,5,7,9) w by simp_all
  have ws: "w1 + w2 \<le> 1" "w1 + w2 + w3 \<le> 1" "w1 + w2 + w3 + w4 \<le> 1"
    using w sum by linarith+
  have x1: "pa + pb \<le> 101"
    using ea(2) eb(2) m(1,2) ws(1) tiny(2) by linarith
  have n1: "0 \<le> s1" unfolding s1_def by (rule dadd_between(1)[OF na(1) order_refl na(2) order_refl])
  note e1 = dadd_error[OF na(1) na(2) x1, folded s1_def E_def]
  have l1: "- (3 * E) \<le> s1 - (a * w1 + b * w2)" and u1: "s1 - (a * w1 + b * w2) \<le> 3 * E"
    using ea eb e1 by linarith+
  have x2: "s1 + pc \<le> 101"
    using u1 ec(2) m(1,2,3) ws(2) tiny(2) by linarith
  have n2: "0 \<le> s2" unfolding s2_def by (rule dadd_between(1)[OF n1 order_refl na(3) order_refl])
  note e2 = dadd_error[OF n1 na(3) x2, folded s2_def E_def]
  have l2: "- (5 * E) \<le> s2 - (a * w1 + b * w2 + c * w3)"
    and u2: "s2 - (a * w1 + b * w2 + c * w3) \<le> 5 * E"
    using l1 u1 ec e2 by linarith+
  have x3: "s2 + pd \<le> 101"
    using u2 ed(2) m(1,2,3,4) ws(3) tiny(2) by linarith
  have n3: "0 \<le> s3" unfolding s3_def by (rule dadd_between(1)[OF n2 order_refl na(4) order_refl])
  note e3 = dadd_error[OF n2 na(4) x3, folded s3_def E_def]
  have l3: "- (7 * E) \<le> s3 - (a * w1 + b * w2 + c * w3 + d * w4)"
    and u3: "s3 - (a * w1 + b * w2 + c * w3 + d * w4) \<le> 7 * E"
    using l2 u2 ed e3 by linarith+
  have x4: "s3 + pe \<le> 101"
    using u3 ee(2) m sum tiny(2) by linarith
  note e4 = dadd_error[OF n3 na(5) x4, folded s4_def E_def]
  have "- (1 / 1000) \<le> s4 - (a * w1 + b * w2 + c * w3 + d * w4 + e * w5)"
    using l3 ee(1) e4(1) tiny(2) by linarith
  moreover have "s4 - (a * w1 + b * w2 + c * w3 + d * w4 + e * w5) \<le> 1 / 1000"
    using u3 ee(2) e4(2) tiny(2) by linarith
  ultimately have "\<bar>s4 - (a * w1 + b * w2 + c * w3 + d * w4 + e * w5)\<bar> \<le> 1 / 1000"
    by linarith
  then show ?thesis
    unfolding s4_def s3_def s2_def s1_def pa_def pb_def pc_def pd_def pe_def .
qed

text \<open>Rounding a value that is close to a number of hundredths: the rounding of the
  hundredths, unless they are a tie, where it may be one less.\<close>

lemma round_near_hundredths:
  fixes S :: rat and N :: int
  assumes "\<bar>S - of_int N / 100\<bar> \<le> 1 / 1000"
  shows "N mod 100 \<noteq> 50 \<Longrightarrow> js_round S = js_round (of_int N / 100)"
    and "js_round (of_int N / 100) - 1 \<le> js_round S"
    and "js_round S \<le> js_round (of_int N / 100)"
    and "js_round (of_int N / 100) = (N + 50) div 100"
proof -
  define k where "k = (N + 50) div 100"
  define r where "r = (N + 50) mod 100"
  have nk: "N + 50 = 100 * k + r" and r: "0 \<le> r" "r < 100"
    by (simp_all add: k_def r_def)
  have "(of_int (N + 50) :: rat) = of_int (100 * k + r)"
    by (simp only: nk)
  then have "(of_int N :: rat) + 50 = 100 * of_int k + of_int r"
    by simp
  then have se: "(of_int N :: rat) / 100 + 1 / 2 = of_int k + of_int r / 100"
    by (simp add: field_simps)
  have rr: "(0 :: rat) \<le> of_int r" "(of_int r :: rat) \<le> 99"
    using r by simp_all
  have "of_int k \<le> (of_int k :: rat) + of_int r / 100" "(of_int k :: rat) + of_int r / 100 < of_int k + 1"
    using rr by simp_all
  then have "\<lfloor>(of_int k :: rat) + of_int r / 100\<rfloor> = k"
    by (rule floor_unique)
  then have ex: "js_round (of_int N / 100) = k"
    by (simp only: js_round_def se)
  show "js_round (of_int N / 100) = (N + 50) div 100"
    using ex by (simp only: k_def)
  from assms have b: "- (1 / 1000) \<le> S - of_int N / 100" "S - of_int N / 100 \<le> 1 / 1000"
    by linarith+
  have up: "S + 1 / 2 < of_int k + 1"
    using b se rr by linarith
  have lo: "of_int k - 1 \<le> S + 1 / 2"
    using b se rr by linarith
  have "js_round S \<le> k"
    unfolding js_round_def using up by (simp only: floor_le_iff)
  then show "js_round S \<le> js_round (of_int N / 100)"
    by (simp only: ex)
  have "of_int (k - 1) \<le> S + 1 / 2"
    using lo by simp
  then have "k - 1 \<le> js_round S"
    unfolding js_round_def by (simp only: le_floor_iff)
  then show "js_round (of_int N / 100) - 1 \<le> js_round S"
    by (simp only: ex)
  show "js_round S = js_round (of_int N / 100)" if "N mod 100 \<noteq> 50"
  proof -
    have "r \<noteq> 0"
    proof
      assume "r = 0"
      with nk have "N = 50 + (k - 1) * 100" by simp
      then have "N mod 100 = 50 mod 100" by (simp only: mod_mult_self1)
      then have "N mod 100 = 50" by simp
      with that show False by simp
    qed
    with r have "1 \<le> r" by simp
    then have "(1 :: rat) \<le> of_int r" by simp
    then have "of_int k \<le> S + 1 / 2"
      using b se by linarith
    with up have "\<lfloor>S + 1 / 2\<rfloor> = k"
      by (intro floor_unique)
    then have "js_round S = k"
      by (simp add: js_round_def)
    then show ?thesis
      by (simp only: ex)
  qed
qed

text \<open>Evaluating the operations on doubles at numerals.\<close>

lemma floor_rat_numeral: "\<lfloor>numeral a / numeral b :: rat\<rfloor> = numeral a div numeral b"
  using floor_divide_of_int_eq[of "numeral a" "numeral b", where ?'a = rat] by simp

lemma floor_half: "\<lfloor>1 / 2 :: rat\<rfloor> = 0"
  by (simp add: floor_eq_iff)

lemmas fl_eval =
  fl_def dadd_def dsub_def dmul_def ddiv_def pow2_def rne_def Let_def ilog2.simps
  floor_rat_numeral floor_half js_round_def

subsection \<open>The example\<close>

text \<open>The audit of the example page.\<close>

lemma example_counts:
  "count_words example_markdown = 13" "count_sentences example_markdown = 9"
  by code_simp+

lemma example_content:
  "analyzePageContent example_URL example_markdown example_metadata = Inr example_page"
proof -
  have a: "build_links example_URL example_metadata (scan_links example_markdown) =
             Inr (links example_page)"
    by code_simp
  have b: "scan_headings True example_markdown = headings example_page"
    by code_simp
  have c: "scan_images example_markdown = images example_page"
    by code_simp
  have f: "flesch 13 9 = readabilityScore example_page"
    by (simp add: flesch_def example_page_def fl_eval)
  show ?thesis
    by (simp add: analyzePageContent_def a b c f example_counts)
       (simp add: example_page_def example_metadata_def or_empty_def)
qed

lemma example_run:
  "analyzeWebsite example_env ''https://example.com'' True = (example_trace, Inr example_result)"
  by (simp add: analyzeWebsite_def example_env_def example_URL_def scrapeWebsite_def
        getPageSpeedInsights_def example_scrape_def example_content onProgress_def
        example_trace_def example_result_def Let_def)

lemma example_run_metrics:
  "technicalMetrics example_result = example_metrics"
  unfolding example_result_def assemble_fields
  by (simp add: build_technicalMetrics_def example_scrape_def example_report_def
        example_page_def example_metrics_def example_metadata_def category_score_def
        audit_value_def or_default_def count_keys_def present_def startsWith_def fl_eval)

lemma analyzeSEOFactors_lists:
  "positiveFactors (analyzeSEOFactors pc meta tm) = concat (map positiveFactors (concerns pc tm))"
  "negativeFactors (analyzeSEOFactors pc meta tm) = concat (map negativeFactors (concerns pc tm))"
  "recommendations (analyzeSEOFactors pc meta tm) = concat (map recommendations (concerns pc tm))"
  by (simp_all add: analyzeSEOFactors_def concerns_def push_all_def no_factors_def)

lemmas concern_defs =
  concerns_def title_analysis_def meta_description_analysis_def heading_analysis_def
  h1Count_def image_analysis_def content_length_analysis_def https_analysis_def
  performance_analysis_def no_factors_def

lemma example_run_negatives:
  "length (negativeFactors example_result) = 3"
proof -
  have "technicalMetrics example_result =
          build_technicalMetrics example_report ''https://example.com/''
            (sr_metadata example_scrape) example_page"
    by (simp add: example_result_def assemble_fields)
  then have "negativeFactors example_result =
          negativeFactors (analyzeSEOFactors example_page example_metadata example_metrics)"
    using example_run_metrics
    by (simp add: example_result_def assemble_fields example_scrape_def)
  then show ?thesis
    by (simp add: analyzeSEOFactors_lists concern_defs example_page_def example_metrics_def
          fl_eval)
qed

lemma example_run_content:
  "pageContent example_result = example_page"
  by (simp add: example_result_def assemble_fields)

text \<open>The audit of the page that fails every concern: its metrics are 2, 14, 91 and 18,
  it has seven negative factors, and its score is 31.\<close>

lemma half_content:
  "analyzePageContent example_URL half_markdown half_metadata = Inr half_page"
proof -
  have a: "build_links example_URL half_metadata (scan_links half_markdown) = Inr []"
    by code_simp
  have b: "scan_headings True half_markdown = []"
    by code_simp
  have c: "scan_images half_markdown = images half_page"
    by code_simp
  have d: "count_words half_markdown = 1" "count_sentences half_markdown = 3"
    by code_simp+
  show ?thesis
    by (simp add: analyzePageContent_def a b c d)
       (simp add: half_page_def half_metadata_def or_empty_def)
qed

lemma half_run:
  "snd (analyzeWebsite half_env ''http://shop.test/'' True) = Inr half_result"
  by (simp add: analyzeWebsite_def half_env_def example_URL_def scrapeWebsite_def
        getPageSpeedInsights_def half_scrape_def half_content onProgress_def
        half_result_def Let_def)

lemma half_metrics:
  "technicalMetrics half_result =
     \<lparr>pageSpeed = 14, mobileScore = 2, httpsEnabled = False, metaTagsCount = 0,
      headingsStructure = False, imageOptimization = 0,
      coreWebVitals = \<lparr>lcp = 2500, fid = 100, cls = fl 0.1\<rparr>,
      seoScore = 2, accessibility = 91, bestPractices = 18, performance = 14\<rparr>"
  unfolding half_result_def assemble_fields
  by (simp add: build_technicalMetrics_def half_scrape_def half_report_def
        half_page_def half_metadata_def category_score_def
        audit_value_def or_default_def count_keys_def present_def startsWith_def fl_eval)

lemma half_negatives:
  "length (negativeFactors half_result) = 7"
proof -
  have "technicalMetrics half_result =
          build_technicalMetrics half_report ''http://shop.test/'' (sr_metadata half_scrape) half_page"
    by (simp add: half_result_def assemble_fields)
  then have "negativeFactors half_result =
          negativeFactors (analyzeSEOFactors half_page half_metadata (technicalMetrics half_result))"
    by (simp add: half_result_def assemble_fields half_scrape_def)
  then show ?thesis
    unfolding half_metrics
    by (simp add: analyzeSEOFactors_lists concern_defs half_page_def fl_eval)
qed

lemma half_score: "score half_result = 31"
proof -
  have "score half_result = overall_score (technicalMetrics half_result) 7"
    using half_negatives by (simp add: half_result_def assemble_fields(3))
  then show ?thesis
    unfolding half_metrics by (simp add: overall_score_def fl_eval)
qed

section \<open>The claims\<close>

subsection \<open>C1: the overall score\<close>

text \<open>A value between 0 and 100.01 rounds to an integer between 0 and 100.\<close>

lemma js_round_bounds:
  assumes "0 \<le> x" and "x \<le> 100.01"
  shows "0 \<le> js_round x" and "js_round x \<le> 100"
proof -
  show "0 \<le> js_round x"
    using assms(1) by (simp add: js_round_def)
  have "x + 1 / 2 < 101" using assms(2) by simp
  then have "\<lfloor>x + 1 / 2\<rfloor> < 101" by (simp only: floor_less_iff of_int_numeral)
  then show "js_round x \<le> 100" by (simp add: js_round_def)
qed

text \<open>The weighted sum in exact arithmetic is a number of hundredths.\<close>

lemma exact_sum_hundredths:
  "of_int a * 0.30 + of_int b * 0.25 + of_int c * 0.20 + of_int d * 0.15 + of_int e * 0.10 =
     (of_int (30 * a + 25 * b + 20 * c + 15 * d + 10 * e) / 100 :: rat)"
  by (simp add: field_simps)

text \<open>
  C1 as stated, with the sum in exact arithmetic, fails where the exact sum ends in one
  half. The audit of a page that fails every concern, with the sub-scores 2, 14, 91 and 18
  and seven negative factors, returns the score 31: the exact sum is 31.5, which rounds to
  32, and the sum of the code, in doubles, is just below it.
\<close>

theorem overall_score_tie_counterexample:
  "snd (analyzeWebsite half_env ''http://shop.test/'' True) = Inr half_result \<and>
   seoScore (technicalMetrics half_result) = 2 \<and>
   performance (technicalMetrics half_result) = 14 \<and>
   accessibility (technicalMetrics half_result) = 91 \<and>
   bestPractices (technicalMetrics half_result) = 18 \<and>
   length (negativeFactors half_result) = 7 \<and>
   score half_result = 31 \<and>
   overall_score (technicalMetrics half_result) 7 = 31 \<and>
   (2 * 0.30 + 14 * 0.25 + 91 * 0.20 + 18 * 0.15 + max 0 (100 - 7 * 5) * 0.10 :: rat) = 31.5 \<and>
   \<lfloor>(2 * 0.30 + 14 * 0.25 + 91 * 0.20 + 18 * 0.15 + max 0 (100 - 7 * 5) * 0.10 :: rat) + 1 / 2\<rfloor> = 32"
proof -
  have m: "seoScore (technicalMetrics half_result) = 2"
    "performance (technicalMetrics half_result) = 14"
    "accessibility (technicalMetrics half_result) = 91"
    "bestPractices (technicalMetrics half_result) = 18"
    by (simp_all add: half_metrics)
  have o: "overall_score (technicalMetrics half_result) 7 = 31"
    using half_score half_negatives by (simp add: half_result_def assemble_fields(3))
  have e: "(2 * 0.30 + 14 * 0.25 + 91 * 0.20 + 18 * 0.15 + max 0 (100 - 7 * 5) * 0.10 :: rat) = 31.5"
    by simp
  have f: "\<lfloor>(2 * 0.30 + 14 * 0.25 + 91 * 0.20 + 18 * 0.15 + max 0 (100 - 7 * 5) * 0.10 :: rat) + 1 / 2\<rfloor> = 32"
    by (simp add: floor_eq_iff)
  from half_run m half_negatives half_score o e f show ?thesis
    by (intro conjI)
qed

text \<open>
  C1, amended. For technical metrics whose four weighted sub-scores lie in 0..100 and any
  number \<open>n\<close> of negative factors, the score is
  \<open>round(seoScore*0.30 + performance*0.25 + accessibility*0.20 + bestPractices*0.15 +
  max(0, 100 - n*5)*0.10)\<close> with the products and the sums computed in doubles, from left
  to right as the code writes them. It lies in 0..100. It is the sum in exact arithmetic,
  rounded, whenever that sum does not end in one half, that is, whenever
  \<open>30*seoScore + 25*performance + 20*accessibility + 15*bestPractices +
  10*max(0, 100 - n*5)\<close> is not 50 modulo 100; where it does, the score is that rounding or
  one less. Every audit that returns these metrics and this number of negative factors
  returns this score, a function of the two.
\<close>

theorem overall_score_formula:
  assumes "0 \<le> seoScore tm" "seoScore tm \<le> 100"
      and "0 \<le> performance tm" "performance tm \<le> 100"
      and "0 \<le> accessibility tm" "accessibility tm \<le> 100"
      and "0 \<le> bestPractices tm" "bestPractices tm \<le> 100"
  shows "overall_score tm n =
           \<lfloor>dadd (dadd (dadd (dadd (dmul (of_int (seoScore tm)) (fl 0.3))
                                   (dmul (of_int (performance tm)) (fl 0.25)))
                             (dmul (of_int (accessibility tm)) (fl 0.2)))
                       (dmul (of_int (bestPractices tm)) (fl 0.15)))
                 (dmul (of_int (max 0 (100 - int n * 5))) (fl 0.1)) + 1 / 2\<rfloor> \<and>
         0 \<le> overall_score tm n \<and> overall_score tm n \<le> 100 \<and>
         ((30 * seoScore tm + 25 * performance tm + 20 * accessibility tm +
           15 * bestPractices tm + 10 * max 0 (100 - int n * 5)) mod 100 \<noteq> 50 \<longrightarrow>
            overall_score tm n =
              \<lfloor>of_int (seoScore tm) * 0.30 + of_int (performance tm) * 0.25 +
               of_int (accessibility tm) * 0.20 + of_int (bestPractices tm) * 0.15 +
               of_int (max 0 (100 - int n * 5)) * 0.10 + (1 / 2 :: rat)\<rfloor>) \<and>
         \<lfloor>of_int (seoScore tm) * 0.30 + of_int (performance tm) * 0.25 +
          of_int (accessibility tm) * 0.20 + of_int (bestPractices tm) * 0.15 +
          of_int (max 0 (100 - int n * 5)) * 0.10 + (1 / 2 :: rat)\<rfloor> - 1 \<le> overall_score tm n \<and>
         overall_score tm n \<le>
           \<lfloor>of_int (seoScore tm) * 0.30 + of_int (performance tm) * 0.25 +
            of_int (accessibility tm) * 0.20 + of_int (bestPractices tm) * 0.15 +
            of_int (max 0 (100 - int n * 5)) * 0.10 + (1 / 2 :: rat)\<rfloor> \<and>
         (\<forall>E u cb tr res.
            analyzeWebsite E u cb = (tr, Inr res) \<and> technicalMetrics res = tm \<and>
            length (negativeFactors res) = n \<longrightarrow> score res = overall_score tm n)"
proof -
  define a :: rat where "a = of_int (seoScore tm)"
  define b :: rat where "b = of_int (performance tm)"
  define c :: rat where "c = of_int (accessibility tm)"
  define d :: rat where "d = of_int (bestPractices tm)"
  define e :: rat where "e = of_int (max 0 (100 - int n * 5))"
  define S where "S = dadd (dadd (dadd (dadd (dmul a (fl 0.3)) (dmul b (fl 0.25)))
                     (dmul c (fl 0.2))) (dmul d (fl 0.15))) (dmul e (fl 0.1))"
  define N where "N = 30 * seoScore tm + 25 * performance tm + 20 * accessibility tm +
                      15 * bestPractices tm + 10 * max 0 (100 - int n * 5)"
  define X :: rat where "X = of_int (seoScore tm) * 0.30 + of_int (performance tm) * 0.25 +
               of_int (accessibility tm) * 0.20 + of_int (bestPractices tm) * 0.15 +
               of_int (max 0 (100 - int n * 5)) * 0.10"
  have r: "0 \<le> a" "a \<le> 100" "0 \<le> b" "b \<le> 100" "0 \<le> c" "c \<le> 100" "0 \<le> d" "d \<le> 100"
          "0 \<le> e" "e \<le> 100"
    using assms by (simp_all add: a_def b_def c_def d_def e_def)
  have eq: "overall_score tm n = js_round S"
    unfolding overall_score_def S_def a_def b_def c_def d_def e_def by (rule refl)
  note range = js_round_bounds[OF weighted_sum_range[OF r, folded S_def]]
  have xn: "X = of_int N / 100"
    unfolding X_def N_def by (rule exact_sum_hundredths)
  have xa: "a * 0.3 + b * 0.25 + c * 0.2 + d * 0.15 + e * 0.1 = X"
    by (simp add: X_def a_def b_def c_def d_def e_def)
  have "\<bar>S - (a * 0.3 + b * 0.25 + c * 0.2 + d * 0.15 + e * 0.1)\<bar> \<le> 1 / 1000"
    unfolding S_def by (rule weighted_sum_error[OF r]) simp_all
  then have "\<bar>S - of_int N / 100\<bar> \<le> 1 / 1000"
    unfolding xa xn .
  note near = round_near_hundredths[OF this, folded xn]
  have run: "score res = overall_score tm n"
    if "analyzeWebsite E u cb = (tr, Inr res)" "technicalMetrics res = tm"
       "length (negativeFactors res) = n" for E u cb tr res
  proof -
    from analyzeWebsite_returns[OF that(1)] obtain c' sr r' pc where "res = assemble c' sr r' pc"
      by blast
    with that(2,3) show ?thesis
      using assemble_fields(3)[of c' sr r' pc] by simp
  qed
  have 1: "overall_score tm n = \<lfloor>S + 1 / 2\<rfloor>"
    using eq by (simp add: js_round_def)
  have 2: "0 \<le> overall_score tm n" "overall_score tm n \<le> 100"
    using range eq by simp_all
  have 3: "N mod 100 \<noteq> 50 \<longrightarrow> overall_score tm n = \<lfloor>X + 1 / 2\<rfloor>"
    using near(1) eq by (simp add: js_round_def)
  have 4: "\<lfloor>X + 1 / 2\<rfloor> - 1 \<le> overall_score tm n" "overall_score tm n \<le> \<lfloor>X + 1 / 2\<rfloor>"
    using near(2,3) eq by (simp_all add: js_round_def)
  have 5: "\<forall>E u cb tr res.
            analyzeWebsite E u cb = (tr, Inr res) \<and> technicalMetrics res = tm \<and>
            length (negativeFactors res) = n \<longrightarrow> score res = overall_score tm n"
    using run by blast
  from 1 2 3 4 5 show ?thesis
    unfolding S_def a_def b_def c_def d_def e_def N_def X_def by (intro conjI)
qed

theorem overall_score_formula_witness:
  "analyzeWebsite example_env ''https://example.com'' True = (example_trace, Inr example_result) \<and>
   technicalMetrics example_result = example_metrics \<and>
   length (negativeFactors example_result) = 3 \<and>
   (30 * seoScore example_metrics + 25 * performance example_metrics +
    20 * accessibility example_metrics + 15 * bestPractices example_metrics +
    10 * max 0 (100 - int 3 * 5)) mod 100 = 60 \<and>
   overall_score example_metrics 3 = 87 \<and>
   score example_result = 87"
proof -
  have pre: "0 \<le> seoScore example_metrics" "seoScore example_metrics \<le> 100"
    "0 \<le> performance example_metrics" "performance example_metrics \<le> 100"
    "0 \<le> accessibility example_metrics" "accessibility example_metrics \<le> 100"
    "0 \<le> bestPractices example_metrics" "bestPractices example_metrics \<le> 100"
    by (simp_all add: example_metrics_def)
  have m: "(30 * seoScore example_metrics + 25 * performance example_metrics +
    20 * accessibility example_metrics + 15 * bestPractices example_metrics +
    10 * max 0 (100 - int 3 * 5)) mod 100 = 60"
    by (simp add: example_metrics_def)
  have x: "\<lfloor>of_int (seoScore example_metrics) * 0.30 + of_int (performance example_metrics) * 0.25 +
            of_int (accessibility example_metrics) * 0.20 + of_int (bestPractices example_metrics) * 0.15 +
            of_int (max 0 (100 - int 3 * 5)) * 0.10 + (1 / 2 :: rat)\<rfloor> = 87"
    by (simp add: example_metrics_def floor_eq_iff)
  note t = overall_score_formula[OF pre, of 3]
  from t m x have v: "overall_score example_metrics 3 = 87"
    by simp
  from t example_run example_run_metrics example_run_negatives
  have "score example_result = overall_score example_metrics 3"
    by blast
  with v m example_run example_run_metrics example_run_negatives show ?thesis
    by simp
qed

subsection \<open>C5: an address that does not parse\<close>

text \<open>
  C5. When the address given to the audit cannot be parsed, the audit fails with the
  error of the \<open>URL\<close> constructor before any service is called: the only effect is the
  line of the error log, so the callback is never called, and neither the scrape service
  nor the performance service.
\<close>

theorem invalid_url_fails_first:
  assumes "URL E u = None"
  shows "snd (analyzeWebsite E u cb) = Inl InvalidURL \<and>
         fst (analyzeWebsite E u cb) = [ConsoleError ''SEO analysis error:'' InvalidURL] \<and>
         (\<forall>ev \<in> set (fst (analyzeWebsite E u cb)).
            (\<forall>n. ev \<noteq> Progress n) \<and> (\<forall>a. ev \<noteq> ScrapeCall a) \<and> (\<forall>a. ev \<noteq> FetchCall a))"
  using assms by (simp add: analyzeWebsite_def)

theorem invalid_url_fails_first_witness:
  "URL example_env ''not a url'' = None \<and>
   analyzeWebsite example_env ''not a url'' True =
     ([ConsoleError ''SEO analysis error:'' InvalidURL], Inl InvalidURL)"
proof -
  have h: "URL example_env ''not a url'' = None"
    by (simp add: example_env_def example_URL_def)
  from invalid_url_fails_first[OF h, of True] h show ?thesis
    by (metis prod.collapse)
qed

subsection \<open>C6: a scrape service that fails\<close>

text \<open>
  C6 as stated, that the error of the scrape service reaches the caller unchanged, fails:
  the service fails with one error and the audit fails with another, the fixed message of
  \<open>scrapeWebsite\<close>.
\<close>

theorem scrape_error_replaced_counterexample:
  "scrape failing_scrape_env ''https://example.com/'' = Inl (Error ''503 Service Unavailable'') \<and>
   snd (analyzeWebsite failing_scrape_env ''https://example.com'' True) =
     Inl (Error ''Failed to analyze website. Please check the URL and try again.'') \<and>
   snd (analyzeWebsite failing_scrape_env ''https://example.com'' True) \<noteq>
     Inl (Error ''503 Service Unavailable'')"
  by (simp add: failing_scrape_env_def example_env_def example_URL_def analyzeWebsite_def
        scrapeWebsite_def)

text \<open>
  C6, amended. For an address that parses, when the scrape service fails the audit fails
  and returns no result, and the error the caller gets is always the same
  \<open>Error\<close>, with the message of \<open>scrapeWebsite\<close>; the error of the service goes to
  the error log only. The performance service is not called.
\<close>

theorem scrape_failure_aborts:
  assumes "URL E u = Some urlObj"
      and "scrape E (url_string urlObj) = Inl e"
  shows "snd (analyzeWebsite E u cb) =
           Inl (Error ''Failed to analyze website. Please check the URL and try again.'') \<and>
         fst (analyzeWebsite E u cb) =
           onProgress cb 10 @
           [ScrapeCall (url_string urlObj),
            ConsoleError ''Error scraping website:'' e,
            ConsoleError ''SEO analysis error:''
              (Error ''Failed to analyze website. Please check the URL and try again.'')]"
  using assms by (simp add: analyzeWebsite_def scrapeWebsite_def)

theorem scrape_failure_aborts_witness:
  "URL failing_scrape_env ''https://example.com'' =
     Some \<lparr>url_string = ''https://example.com/'', hostname = ''example.com''\<rparr> \<and>
   scrape failing_scrape_env ''https://example.com/'' = Inl (Error ''503 Service Unavailable'') \<and>
   analyzeWebsite failing_scrape_env ''https://example.com'' True =
     ([Progress 10, ScrapeCall ''https://example.com/'',
       ConsoleError ''Error scraping website:'' (Error ''503 Service Unavailable''),
       ConsoleError ''SEO analysis error:''
         (Error ''Failed to analyze website. Please check the URL and try again.'')],
      Inl (Error ''Failed to analyze website. Please check the URL and try again.''))"
proof -
  have u: "URL failing_scrape_env ''https://example.com'' =
     Some \<lparr>url_string = ''https://example.com/'', hostname = ''example.com''\<rparr>"
    by (simp add: failing_scrape_env_def example_env_def example_URL_def)
  have s: "scrape failing_scrape_env
             (url_string \<lparr>url_string = ''https://example.com/'', hostname = ''example.com''\<rparr>) =
           Inl (Error ''503 Service Unavailable'')"
    by (simp add: failing_scrape_env_def)
  from scrape_failure_aborts[OF u s, of True] u s show ?thesis
    by (simp add: onProgress_def prod_eq_iff)
qed

subsection \<open>C8: the derived fields of the technical metrics\<close>

lemma count_level:
  "length (filter (\<lambda>h. level h = k) hs) = count_list (map level hs) k"
  by (induction hs) simp_all

text \<open>Two values within a thousandth of each other round to integers at most 1 apart.\<close>

lemma js_round_near:
  assumes "\<bar>x - y\<bar> \<le> 1 / 1000"
  shows "js_round y - 1 \<le> js_round x" and "js_round x \<le> js_round y + 1"
proof -
  have "y + 1 / 2 - 1 \<le> x + 1 / 2"
    using assms by linarith
  then have "\<lfloor>y + 1 / 2 - 1\<rfloor> \<le> \<lfloor>x + 1 / 2\<rfloor>"
    by (rule floor_mono)
  then show "js_round y - 1 \<le> js_round x"
    unfolding js_round_def by (simp only: floor_diff_one)
  have "x + 1 / 2 \<le> y + 1 / 2 + 1"
    using assms by linarith
  then have "\<lfloor>x + 1 / 2\<rfloor> \<le> \<lfloor>y + 1 / 2 + 1\<rfloor>"
    by (rule floor_mono)
  then show "js_round x \<le> js_round y + 1"
    unfolding js_round_def using floor_add_int[of "y + 1 / 2" 1] by simp
qed

text \<open>The percentage of a part of a whole, computed in doubles with the quotient first.\<close>

lemma percentage_bounds:
  fixes a m :: nat
  assumes "a \<le> m" and "0 < m"
  shows "0 \<le> dmul (ddiv (of_nat a) (of_nat m)) 100"
    and "dmul (ddiv (of_nat a) (of_nat m)) 100 \<le> 100.01"
    and "\<bar>dmul (ddiv (of_nat a) (of_nat m)) 100 - 100 * of_nat a / of_nat m\<bar> \<le> 1 / 1000"
proof -
  define x :: rat where "x = of_nat a / of_nat m"
  have x: "0 \<le> x" "x \<le> 1"
    using assms by (simp_all add: x_def)
  note q = fl_between[OF x] fl_abs_error[OF x]
  have q1: "fl x \<le> 101 / 100"
    using q(2) by simp
  have h: "(0 :: rat) \<le> 100" "(100 :: rat) \<le> 100" by simp_all
  note p = dmul_between[OF q(1) q1 h]
  show "0 \<le> dmul (ddiv (of_nat a) (of_nat m)) 100"
    using p(1) by (simp add: ddiv_def x_def)
  have "dmul (fl x) 100 \<le> 1 * (1 + 1 / 2 ^ 53) * 100 * (1 + 1 / 2 ^ 53)"
    using dmul_between(2)[OF q(1,2) h] .
  also have "\<dots> \<le> 100.01" by simp
  finally show "dmul (ddiv (of_nat a) (of_nat m)) 100 \<le> 100.01"
    by (simp add: ddiv_def x_def)
  have y0: "0 \<le> fl x * 100" using q(1) by simp
  have y1: "fl x * 100 \<le> 101" using q1 by simp
  note r = fl_abs_error[OF y0 y1]
  have tiny: "(101 / 2 ^ 53 :: rat) \<le> 1 / 100000" "(1 / 2 ^ 53 :: rat) \<le> 1 / 100000"
    by simp_all
  have "\<bar>fl (fl x * 100) - 100 * x\<bar> \<le> 1 / 1000"
    using r q(3,4) tiny by linarith
  then show "\<bar>dmul (ddiv (of_nat a) (of_nat m)) 100 - 100 * of_nat a / of_nat m\<bar> \<le> 1 / 1000"
    by (simp add: dmul_def ddiv_def x_def)
qed

text \<open>
  C8 as stated, that \<open>imageOptimization\<close> equals
  \<open>round(100 * imagesWithAlt / max(totalImages, 1))\<close>, fails: with 23 of 40 images the
  formula gives 58, in exact arithmetic and in doubles, since \<open>2300 / 40\<close> is 57.5. The
  code divides first: \<open>23 / 40\<close> is rounded to a double below 0.575, its product with
  100 to a double below 57.5, and \<open>Math.round\<close> gives 57.
\<close>

theorem image_optimization_tie_counterexample:
  "length (filter hasAlt (images tie_page)) = 23 \<and> length (images tie_page) = 40 \<and>
   imageOptimization
     (build_technicalMetrics example_report ''https://example.com/'' example_metadata tie_page) = 57 \<and>
   js_round (100 * 23 / 40) = 58 \<and>
   js_round (ddiv (dmul 100 23) 40) = 58"
proof -
  have n: "length (filter hasAlt (images tie_page)) = 23" "length (images tie_page) = 40"
    by (simp_all add: tie_page_def)
  have "imageOptimization
     (build_technicalMetrics example_report ''https://example.com/'' example_metadata tie_page) =
       js_round (dmul (ddiv 23 40) 100)"
    by (simp add: build_technicalMetrics_def n)
  also have "\<dots> = 57"
    by (simp add: fl_eval)
  finally have a: "imageOptimization
     (build_technicalMetrics example_report ''https://example.com/'' example_metadata tie_page) = 57" .
  have b: "js_round (100 * 23 / 40) = 58" "js_round (ddiv (dmul 100 23) 40) = 58"
    by (simp_all add: fl_eval)
  from n a b show ?thesis by (intro conjI)
qed

text \<open>
  C8, amended. For every page content, in the technical metrics built from it
  \<open>headingsStructure\<close> holds exactly when one heading has level 1, and
  \<open>imageOptimization\<close> is \<open>Math.round((imagesWithAlt / max(totalImages, 1)) * 100)\<close>
  with the quotient taken first and both operations in doubles. It lies in 0..100, differs
  from \<open>round(100 * imagesWithAlt / max(totalImages, 1))\<close> by at most 1, and is 0 for a
  page without images. Both fields are so in the metrics and the content of every result
  that an audit returns.
\<close>

theorem metrics_invariants:
  "(headingsStructure (build_technicalMetrics r c m pc) \<longleftrightarrow>
      count_list (map level (headings pc)) 1 = 1) \<and>
   imageOptimization (build_technicalMetrics r c m pc) =
     \<lfloor>dmul (ddiv (of_nat (length (filter hasAlt (images pc))))
                  (of_nat (max (length (images pc)) 1))) 100 + 1 / 2\<rfloor> \<and>
   0 \<le> imageOptimization (build_technicalMetrics r c m pc) \<and>
   imageOptimization (build_technicalMetrics r c m pc) \<le> 100 \<and>
   \<lfloor>100 * of_nat (length (filter hasAlt (images pc))) / of_nat (max (length (images pc)) 1)
      + (1 / 2 :: rat)\<rfloor> - 1 \<le> imageOptimization (build_technicalMetrics r c m pc) \<and>
   imageOptimization (build_technicalMetrics r c m pc) \<le>
     \<lfloor>100 * of_nat (length (filter hasAlt (images pc))) / of_nat (max (length (images pc)) 1)
        + (1 / 2 :: rat)\<rfloor> + 1 \<and>
   imageOptimization (build_technicalMetrics r c m (pc\<lparr>images := []\<rparr>)) = 0 \<and>
   (\<forall>E u cb tr res.
      analyzeWebsite E u cb = (tr, Inr res) \<longrightarrow>
        (headingsStructure (technicalMetrics res) \<longleftrightarrow>
           count_list (map level (headings (pageContent res))) 1 = 1) \<and>
        imageOptimization (technicalMetrics res) =
          \<lfloor>dmul (ddiv (of_nat (length (filter hasAlt (images (pageContent res)))))
                       (of_nat (max (length (images (pageContent res))) 1))) 100 + 1 / 2\<rfloor>)"
proof -
  define a where "a = length (filter hasAlt (images pc))"
  define n where "n = max (length (images pc)) 1"
  have an: "a \<le> n" "0 < n"
    by (simp_all add: a_def n_def le_max_iff_disj)
  have h: "headingsStructure (build_technicalMetrics r c m pc) \<longleftrightarrow>
             count_list (map level (headings pc)) 1 = 1" for r c m pc
    by (simp add: build_technicalMetrics_def count_level)
  have i: "imageOptimization (build_technicalMetrics r c m pc) =
     \<lfloor>dmul (ddiv (of_nat (length (filter hasAlt (images pc))))
                  (of_nat (max (length (images pc)) 1))) 100 + 1 / 2\<rfloor>" for r c m pc
    by (simp add: build_technicalMetrics_def js_round_def)
  have j: "imageOptimization (build_technicalMetrics r c m pc) =
             js_round (dmul (ddiv (of_nat a) (of_nat n)) 100)"
    by (simp add: build_technicalMetrics_def a_def n_def)
  note b = percentage_bounds[OF an]
  note rg = js_round_bounds[OF b(1,2)]
  note nr = js_round_near[OF b(3)]
  have "js_round (dmul (ddiv 0 1) 100) = 0"
    by (simp add: fl_eval)
  then have z: "imageOptimization (build_technicalMetrics r c m (pc\<lparr>images := []\<rparr>)) = 0"
    by (simp add: build_technicalMetrics_def)
  have run: "(headingsStructure (technicalMetrics res) \<longleftrightarrow>
           count_list (map level (headings (pageContent res))) 1 = 1) \<and>
        imageOptimization (technicalMetrics res) =
          \<lfloor>dmul (ddiv (of_nat (length (filter hasAlt (images (pageContent res)))))
                       (of_nat (max (length (images (pageContent res))) 1))) 100 + 1 / 2\<rfloor>"
    if "analyzeWebsite E u cb = (tr, Inr res)" for E u cb tr res
  proof -
    from analyzeWebsite_returns[OF that] obtain c' sr r' pc' where "res = assemble c' sr r' pc'"
      by blast
    then show ?thesis
      using h[of r' c' "sr_metadata sr" pc'] i[of r' c' "sr_metadata sr" pc']
      by (simp add: assemble_fields)
  qed
  have 1: "0 \<le> imageOptimization (build_technicalMetrics r c m pc)"
          "imageOptimization (build_technicalMetrics r c m pc) \<le> 100"
    using rg j by simp_all
  have 2: "\<lfloor>100 * of_nat a / of_nat n + (1 / 2 :: rat)\<rfloor> - 1
             \<le> imageOptimization (build_technicalMetrics r c m pc)"
          "imageOptimization (build_technicalMetrics r c m pc)
             \<le> \<lfloor>100 * of_nat a / of_nat n + (1 / 2 :: rat)\<rfloor> + 1"
    using nr j by (simp_all add: js_round_def)
  from h[of r c m pc] i[of r c m pc] 1 2 z run show ?thesis
    unfolding a_def n_def by blast
qed

theorem metrics_invariants_witness:
  "analyzeWebsite example_env ''https://example.com'' True = (example_trace, Inr example_result) \<and>
   count_list (map level (headings (pageContent example_result))) 1 = 1 \<and>
   headingsStructure (technicalMetrics example_result) \<and>
   length (filter hasAlt (images (pageContent example_result))) = 1 \<and>
   length (images (pageContent example_result)) = 2 \<and>
   imageOptimization (technicalMetrics example_result) = 50"
proof -
  have c: "count_list (map level (headings (pageContent example_result))) 1 = 1"
    "length (filter hasAlt (images (pageContent example_result))) = 1"
    "length (images (pageContent example_result)) = 2"
    by (simp_all add: example_run_content example_page_def)
  have "\<lfloor>dmul (ddiv (of_nat 1) (of_nat (max 2 1))) 100 + 1 / 2\<rfloor> = 50"
    by (simp add: fl_eval)
  with metrics_invariants example_run c show ?thesis
    by metis
qed

subsection \<open>C4: defaults of the technical metrics\<close>

text \<open>A score that is present and not 0 is mapped to its hundredfold, rounded; an absent
  score and the score 0 give the default.\<close>

lemma performance_cases:
  "performance (build_technicalMetrics r c m pc) =
     (case category_score r cat_performance of
        None \<Rightarrow> js_round (dmul (fl 0.7) 100)
      | Some v \<Rightarrow> if v = 0 then js_round (dmul (fl 0.7) 100) else js_round (dmul v 100))"
  by (simp add: build_technicalMetrics_def or_default_def split: option.splits)

text \<open>
  C4. A report with nothing in it gives the defaults: performance 70, seoScore 75,
  accessibility 80, bestPractices 85, LCP 2500, FID 100, CLS 0.1. A report whose
  performance score is present and is 0 gives performance 70 as well, the default, where
  the claim has \<open>round(0 * 100) = 0\<close>; its other scores are mapped as the claim says.
\<close>

theorem zero_score_takes_default:
  "performance (build_technicalMetrics zero_performance_report c m pc) = 70 \<and>
   pageSpeed (build_technicalMetrics zero_performance_report c m pc) = 70 \<and>
   js_round (dmul 0 100) = 0 \<and>
   seoScore (build_technicalMetrics zero_performance_report c m pc) = 75 \<and>
   accessibility (build_technicalMetrics zero_performance_report c m pc) = 88 \<and>
   bestPractices (build_technicalMetrics zero_performance_report c m pc) = 100 \<and>
   performance (build_technicalMetrics empty_report c m pc) = 70 \<and>
   seoScore (build_technicalMetrics empty_report c m pc) = 75 \<and>
   accessibility (build_technicalMetrics empty_report c m pc) = 80 \<and>
   bestPractices (build_technicalMetrics empty_report c m pc) = 85 \<and>
   coreWebVitals (build_technicalMetrics empty_report c m pc) =
     \<lparr>lcp = 2500, fid = 100, cls = fl 0.1\<rparr>"
proof -
  have d: "js_round (dmul (fl 0.7) 100) = 70" "js_round (dmul (fl 0.75) 100) = 75"
    "js_round (dmul (fl 0.8) 100) = 80" "js_round (dmul (fl 0.85) 100) = 85"
    "js_round (dmul 0 100) = 0" "js_round (dmul (fl 0.745) 100) = 75"
    "js_round (dmul (fl 0.88) 100) = 88" "js_round (dmul 1 100) = 100"
    by (simp_all add: fl_eval)
  have "fl 0.745 \<noteq> 0" "fl 0.88 \<noteq> 0"
    by (simp_all add: fl_eval)
  then show ?thesis
    unfolding build_technicalMetrics_def zero_performance_report_def empty_report_def
      category_score_def audit_value_def or_default_def
    using d by simp
qed

subsection \<open>C3: links of a page whose own address is missing\<close>

text \<open>When the loop over the links throws, and what it returns otherwise.\<close>

lemma build_links_throws:
  assumes "U (or_empty (m_url meta)) = None"
      and "\<exists>x \<in> set ms. startsWith (snd x) ''http''"
  shows "build_links U meta ms = Inl InvalidURL"
  using assms(2)
proof (induction ms)
  case Nil
  then show ?case by simp
next
  case (Cons x ms)
  obtain t h where x: "x = (t, h)" by (cases x)
  show ?case
  proof (cases "startsWith h ''http''")
    case True
    then show ?thesis
      using assms(1) by (simp add: x is_internal_def)
  next
    case False
    with Cons.prems have "\<exists>y \<in> set ms. startsWith (snd y) ''http''"
      by (auto simp: x)
    then have "build_links U meta ms = Inl InvalidURL"
      by (rule Cons.IH)
    then show ?thesis
      using False by (simp add: x is_internal_def)
  qed
qed

lemma build_links_returns:
  assumes "U (or_empty (m_url meta)) = Some page \<or> (\<forall>x \<in> set ms. \<not> startsWith (snd x) ''http'')"
  shows "build_links U meta ms =
           Inr (map (\<lambda>(t, h). \<lparr>href = h, link_text = t,
                                 isInternal = (\<not> startsWith h ''http'' \<or>
                                               includes_str h (hostname page))\<rparr>) ms)"
  using assms
  by (induction ms) (auto simp: is_internal_def split: sum.splits option.splits)

text \<open>
  C3. The content extractor throws on a page with a link that starts with \<open>http\<close> when
  the metadata has no \<open>url\<close>, or one that is no address: \<open>new URL\<close> is called on the
  empty string, or on the malformed one. The audit of such a page fails after both services
  have answered.
\<close>

theorem link_extraction_throws:
  "analyzePageContent example_URL ''[home](https://example.com/)'' (example_metadata\<lparr>m_url := None\<rparr>)
     = Inl InvalidURL \<and>
   analyzePageContent example_URL ''[home](https://example.com/)''
     (example_metadata\<lparr>m_url := Some ''example.com''\<rparr>) = Inl InvalidURL \<and>
   analyzeWebsite urlless_env ''https://example.com'' True =
     ([Progress 10, ScrapeCall ''https://example.com/'', Progress 30,
       FetchCall ''https://example.com/'', Progress 60,
       ConsoleError ''SEO analysis error:'' InvalidURL], Inl InvalidURL)"
proof -
  have a: "analyzePageContent example_URL ''[home](https://example.com/)''
             (example_metadata\<lparr>m_url := None\<rparr>) = Inl InvalidURL"
    by code_simp
  have b: "analyzePageContent example_URL ''[home](https://example.com/)''
             (example_metadata\<lparr>m_url := Some ''example.com''\<rparr>) = Inl InvalidURL"
    by code_simp
  have c: "analyzePageContent example_URL example_markdown (example_metadata\<lparr>m_url := None\<rparr>)
             = Inl InvalidURL"
    by code_simp
  have d: "analyzeWebsite urlless_env ''https://example.com'' True =
     ([Progress 10, ScrapeCall ''https://example.com/'', Progress 30,
       FetchCall ''https://example.com/'', Progress 60,
       ConsoleError ''SEO analysis error:'' InvalidURL], Inl InvalidURL)"
    by (simp add: analyzeWebsite_def urlless_env_def example_env_def example_URL_def
          scrapeWebsite_def getPageSpeedInsights_def onProgress_def Let_def c)
  from a b d show ?thesis by (intro conjI)
qed

subsection \<open>Readability\<close>

text \<open>A split has at least one piece, so the number of sentences is at least 1. With a
  word the score is a finite number, and without one the quotient of syllables and words
  is \<open>0 / 0\<close>.\<close>

lemma split_runs_nonempty: "split_runs P cur s \<noteq> []"
  by (induction P cur s rule: split_runs.induct) auto

lemma count_sentences_pos: "1 \<le> count_sentences md"
  using split_runs_nonempty[of _ "[]" md]
  by (simp add: count_sentences_def split_def Suc_le_eq)

lemma js_NaN [simp]:
  "js_mul x NaN = NaN" "js_sub x NaN = NaN" "js_min x NaN = NaN" "js_max x NaN = NaN"
  by (cases x; simp)+

lemma flesch_words:
  assumes "0 < w" and "0 < s"
  shows "flesch w s =
           Num (max 0 (min 100
             (dsub (dsub (fl 206.835) (dmul (fl 1.015) (ddiv (of_nat w) (of_nat s))))
                   (dmul (fl 84.6) (ddiv (dmul (of_nat w) (fl 1.5)) (of_nat w))))))"
  using assms by (simp add: flesch_def Let_def)

lemma dmul_zero: "dmul 0 b = 0"
  by (simp add: dmul_def fl_def)

lemma flesch_no_words: "flesch 0 s = NaN"
  by (simp add: flesch_def Let_def dmul_zero)

lemma analyzePageContent_readability:
  assumes "analyzePageContent U md meta = Inr pc"
  shows "wordCount pc = count_words md"
    and "readabilityScore pc = flesch (count_words md) (count_sentences md)"
  using assms by (auto simp: analyzePageContent_def split: sum.splits)

lemma empty_content:
  "analyzePageContent example_URL [] example_metadata =
     Inr (example_page\<lparr>headings := [], images := [], links := [], wordCount := 0,
                        readabilityScore := NaN\<rparr>)"
proof -
  have "count_words [] = 0" "count_sentences [] = 1"
    by code_simp+
  then show ?thesis
    by (simp add: analyzePageContent_def flesch_no_words example_page_def example_metadata_def
          or_empty_def)
qed

lemma empty_counts: "count_words [] = 0"
  by code_simp

lemma long_counts:
  "count_words long_sentence = 80" "count_sentences long_sentence = 1"
  by code_simp+

lemma long_content:
  "analyzePageContent example_URL long_sentence example_metadata = Inr long_page"
proof -
  have a: "build_links example_URL example_metadata (scan_links long_sentence) = Inr []"
    by code_simp
  have b: "scan_headings True long_sentence = []"
    by code_simp
  have c: "scan_images long_sentence = []"
    by code_simp
  have "flesch 80 1 = Num 0"
    by (simp add: flesch_def fl_eval)
  then have f: "flesch 80 (Suc 0) = Num 0"
    by simp
  show ?thesis
    by (simp add: analyzePageContent_def a b c f long_counts)
       (simp add: long_page_def example_metadata_def or_empty_def)
qed

subsection \<open>C2: the readability score is clamped\<close>

text \<open>
  C2 as stated, that the score is the raw Flesch approximation and is not clamped, fails:
  for eighty words in one sentence the approximation is negative (about \<open>-1.265\<close>) and
  the extractor returns 0.
\<close>

theorem readability_unclamped_counterexample:
  "analyzePageContent example_URL long_sentence example_metadata = Inr long_page \<and>
   wordCount long_page = 80 \<and> count_sentences long_sentence = 1 \<and>
   dsub (dsub (fl 206.835) (dmul (fl 1.015) (ddiv 80 1)))
        (dmul (fl 84.6) (ddiv (dmul 80 (fl 1.5)) 80)) < 0 \<and>
   readabilityScore long_page = Num 0"
proof -
  have c: "dsub (dsub (fl 206.835) (dmul (fl 1.015) (ddiv 80 1)))
        (dmul (fl 84.6) (ddiv (dmul 80 (fl 1.5)) 80)) < 0"
    by (simp add: fl_eval)
  from long_content long_counts(2) c show ?thesis
    by (simp add: long_page_def)
qed

text \<open>
  C2, amended. For every markdown input on which the extractor returns, the readability
  score is the approximation \<open>206.835 - 1.015*(words/sentences) - 84.6*(syllables/words)\<close>,
  with \<open>sentences\<close> the number of pieces of the split at runs of \<open>.\<close>, \<open>!\<close> and
  \<open>?\<close> (at least 1) and \<open>syllables = words*1.5\<close>, clamped to [0, 100] by
  \<open>Math.max(0, Math.min(100, ...))\<close>; for a markdown without a word it is NaN.
\<close>

theorem readability_is_clamped:
  assumes "analyzePageContent U md meta = Inr pc"
  shows "wordCount pc = count_words md \<and> 1 \<le> count_sentences md \<and>
         (0 < count_words md \<longrightarrow>
            readabilityScore pc =
              Num (max 0 (min 100
                (dsub (dsub (fl 206.835)
                            (dmul (fl 1.015)
                               (ddiv (of_nat (count_words md)) (of_nat (count_sentences md)))))
                      (dmul (fl 84.6)
                         (ddiv (dmul (of_nat (count_words md)) (fl 1.5))
                               (of_nat (count_words md)))))))) \<and>
         (count_words md = 0 \<longrightarrow> readabilityScore pc = NaN)"
proof -
  have s: "0 < count_sentences md"
    using count_sentences_pos[of md] by simp
  show ?thesis
    using analyzePageContent_readability[OF assms] count_sentences_pos[of md]
      flesch_words[OF _ s, of "count_words md"] flesch_no_words[of "count_sentences md"]
    by auto
qed

theorem readability_is_clamped_witness:
  "analyzePageContent example_URL example_markdown example_metadata = Inr example_page \<and>
   0 < count_words example_markdown \<and>
   readabilityScore example_page =
     Num (max 0 (min 100
            (dsub (dsub (fl 206.835) (dmul (fl 1.015) (ddiv (of_nat 13) (of_nat 9))))
                  (dmul (fl 84.6) (ddiv (dmul (of_nat 13) (fl 1.5)) (of_nat 13)))))) \<and>
   analyzePageContent example_URL [] example_metadata =
     Inr (example_page\<lparr>headings := [], images := [], links := [], wordCount := 0,
                        readabilityScore := NaN\<rparr>) \<and>
   count_words [] = 0 \<and>
   readabilityScore (example_page\<lparr>headings := [], images := [], links := [], wordCount := 0,
                        readabilityScore := NaN\<rparr>) = NaN"
proof -
  note a = readability_is_clamped[OF example_content, unfolded example_counts]
  note b = readability_is_clamped[OF empty_content]
  from a have "readabilityScore example_page =
     Num (max 0 (min 100
            (dsub (dsub (fl 206.835) (dmul (fl 1.015) (ddiv (of_nat 13) (of_nat 9))))
                  (dmul (fl 84.6) (ddiv (dmul (of_nat 13) (fl 1.5)) (of_nat 13))))))"
    by simp
  with b example_content empty_content example_counts empty_counts show ?thesis
    by simp
qed

subsection \<open>C10: the range of the readability score\<close>

text \<open>
  C10. For every markdown input with at least one word, the readability score that the
  extractor returns is a number in [0, 100]. For a markdown without a word the bound does
  not hold: the score is NaN, from the quotient \<open>0 / 0\<close> of syllables and words.
\<close>

theorem readability_range:
  assumes "analyzePageContent U md meta = Inr pc"
  shows "(0 < count_words md \<longrightarrow>
            (\<exists>r. readabilityScore pc = Num r \<and> 0 \<le> r \<and> r \<le> 100)) \<and>
         (count_words md = 0 \<longrightarrow> readabilityScore pc = NaN)"
proof -
  have s: "0 < count_sentences md"
    using count_sentences_pos[of md] by simp
  show ?thesis
    using analyzePageContent_readability[OF assms]
      flesch_words[OF _ s, of "count_words md"] flesch_no_words[of "count_sentences md"]
    by auto
qed

theorem readability_range_witness:
  "analyzePageContent example_URL example_markdown example_metadata = Inr example_page \<and>
   0 < count_words example_markdown \<and>
   (\<exists>r. readabilityScore example_page = Num r \<and> 0 \<le> r \<and> r \<le> 100) \<and>
   analyzePageContent example_URL [] example_metadata =
     Inr (example_page\<lparr>headings := [], images := [], links := [], wordCount := 0,
                        readabilityScore := NaN\<rparr>) \<and>
   count_words [] = 0"
  using readability_range[OF example_content] readability_range[OF empty_content]
    example_content empty_content example_counts empty_counts
  by simp

subsection \<open>The lists of the factor analyzer\<close>

text \<open>Each list of the analyzer is the concatenation of what the seven blocks push to it,
  and a block pushes at most one factor to the positive and negative lists together.\<close>

lemma concern_sizes:
  assumes "c \<in> set (concerns pc tm)"
  shows "length (positiveFactors c) + length (negativeFactors c) \<le> 1"
    and "length (recommendations c) \<le> length (negativeFactors c)"
  using assms
  by (auto simp: concern_defs Let_def)

lemma length_concat_le:
  assumes "\<And>x. x \<in> set xs \<Longrightarrow> length (f x) \<le> 1"
  shows "length (concat (map f xs)) \<le> length xs"
  using assms by (induction xs) fastforce+

lemma negatives_at_most_seven:
  "length (negativeFactors (analyzeSEOFactors pc meta tm)) \<le> 7"
proof -
  have "length (negativeFactors c) \<le> 1" if "c \<in> set (concerns pc tm)" for c
    using concern_sizes(1)[OF that] by simp
  then have "length (concat (map negativeFactors (concerns pc tm))) \<le> length (concerns pc tm)"
    by (rule length_concat_le)
  then show ?thesis
    by (simp add: analyzeSEOFactors_lists(2)) (simp add: concerns_def)
qed

subsection \<open>C9: seven concerns\<close>

text \<open>
  C9 as stated, that each concern contributes at most one factor to exactly one list,
  fails: for a title of four characters the title block pushes a negative factor and a
  recommendation, and the page that fails every concern gets nine factors from seven
  concerns.
\<close>

theorem concern_two_factors_counterexample:
  "title_analysis bad_page \<in> set (concerns bad_page bad_metrics) \<and>
   length (positiveFactors (title_analysis bad_page)) +
   length (negativeFactors (title_analysis bad_page)) +
   length (recommendations (title_analysis bad_page)) = 2 \<and>
   length (concerns bad_page bad_metrics) = 7 \<and>
   length (positiveFactors (analyzeSEOFactors bad_page example_metadata bad_metrics)) +
   length (negativeFactors (analyzeSEOFactors bad_page example_metadata bad_metrics)) +
   length (recommendations (analyzeSEOFactors bad_page example_metadata bad_metrics)) = 9"
  by (simp add: analyzeSEOFactors_lists concern_defs bad_page_def bad_metrics_def
        example_metrics_def fl_eval)

text \<open>
  C9, amended. The factor analyzer evaluates exactly seven concerns, and its three lists
  are made of what they push. Each concern pushes at most one factor to the positive and
  the negative list together, and at most one recommendation, only along with its negative
  factor. So there are at most seven negative factors, the term
  \<open>max(0, 100 - negativeFactors.length*5)\<close> of the score is at least 65, and the
  maximum with 0 is never the binding branch.
\<close>

theorem concerns_contribution:
  "length (concerns pc tm) = 7 \<and>
   positiveFactors (analyzeSEOFactors pc meta tm) = concat (map positiveFactors (concerns pc tm)) \<and>
   negativeFactors (analyzeSEOFactors pc meta tm) = concat (map negativeFactors (concerns pc tm)) \<and>
   recommendations (analyzeSEOFactors pc meta tm) = concat (map recommendations (concerns pc tm)) \<and>
   (\<forall>c \<in> set (concerns pc tm).
      length (positiveFactors c) + length (negativeFactors c) \<le> 1 \<and>
      length (recommendations c) \<le> length (negativeFactors c)) \<and>
   length (negativeFactors (analyzeSEOFactors pc meta tm)) \<le> 7 \<and>
   65 \<le> max 0 (100 - int (length (negativeFactors (analyzeSEOFactors pc meta tm))) * 5) \<and>
   max 0 (100 - int (length (negativeFactors (analyzeSEOFactors pc meta tm))) * 5) =
     100 - int (length (negativeFactors (analyzeSEOFactors pc meta tm))) * 5"
proof -
  have n: "length (negativeFactors (analyzeSEOFactors pc meta tm)) \<le> 7"
    by (rule negatives_at_most_seven)
  have l: "length (concerns pc tm) = 7"
    by (simp add: concerns_def)
  have s: "\<forall>c \<in> set (concerns pc tm).
      length (positiveFactors c) + length (negativeFactors c) \<le> 1 \<and>
      length (recommendations c) \<le> length (negativeFactors c)"
    using concern_sizes by blast
  have m: "65 \<le> max 0 (100 - int (length (negativeFactors (analyzeSEOFactors pc meta tm))) * 5)"
    "max 0 (100 - int (length (negativeFactors (analyzeSEOFactors pc meta tm))) * 5) =
     100 - int (length (negativeFactors (analyzeSEOFactors pc meta tm))) * 5"
    using n by linarith+
  from l s n m analyzeSEOFactors_lists[of pc meta tm] show ?thesis
    by (intro conjI)
qed

theorem concerns_contribution_witness:
  "performance_analysis bad_metrics \<in> set (concerns bad_page bad_metrics) \<and>
   length (positiveFactors (performance_analysis bad_metrics)) +
   length (negativeFactors (performance_analysis bad_metrics)) = 1 \<and>
   length (recommendations (performance_analysis bad_metrics)) = 1 \<and>
   length (negativeFactors (analyzeSEOFactors bad_page example_metadata bad_metrics)) = 7 \<and>
   max 0 (100 - int (length (negativeFactors (analyzeSEOFactors bad_page example_metadata bad_metrics))) * 5) = 65"
proof -
  have a: "performance_analysis bad_metrics \<in> set (concerns bad_page bad_metrics)"
    by (simp add: concerns_def)
  have b: "length (negativeFactors (performance_analysis bad_metrics)) = 1"
    "length (recommendations (performance_analysis bad_metrics)) = 1"
    by (simp_all add: performance_analysis_def no_factors_def bad_metrics_def example_metrics_def)
  have c: "length (negativeFactors (analyzeSEOFactors bad_page example_metadata bad_metrics)) = 7"
    by (simp add: analyzeSEOFactors_lists concern_defs bad_page_def bad_metrics_def
        example_metrics_def fl_eval)
  from concerns_contribution[of bad_page bad_metrics example_metadata] a
  have "length (positiveFactors (performance_analysis bad_metrics)) +
        length (negativeFactors (performance_analysis bad_metrics)) \<le> 1"
    by blast
  with a b c show ?thesis
    by simp
qed

subsection \<open>C7: the title rule\<close>



end
